theory Spec2Isabelle
  imports Main
begin

section \<open>Values of the query language\<close>

text \<open>
  \<^verbatim>\<open>ql::datum_t\<close> is a tagged value. An object is kept as the list of its
  key/value pairs and is read through \<open>map_of\<close>; the number of an \<open>R_NUM\<close> is never
  inspected by the code verified here.
\<close>

datatype datum_t =
    R_NULL
  | R_BOOL bool
  | R_NUM int
  | R_STR string
  | R_ARRAY "datum_t list"
  | R_OBJECT "(string \<times> datum_t) list"
  | R_BINARY string

text \<open>
  \<^verbatim>\<open>uuid_u\<close>: a 128-bit identifier, of which the code only uses equality and the
  order that \<^verbatim>\<open>std::set\<close> and \<^verbatim>\<open>std::map\<close> iterate in. \<^verbatim>\<open>nil_uuid()\<close> is
  the all-zero identifier.
\<close>

type_synonym uuid_u = nat
type_synonym server_id_t = uuid_u
type_synonym namespace_id_t = uuid_u
type_synonym database_id_t = uuid_u
type_synonym name_string_t = string

definition nil_uuid :: uuid_u where
  "nil_uuid = 0"

section \<open>The declarations of datum_adapter.hpp\<close>

text \<open>
  The conversions between identifiers and their display form (which depend on the
  identifier format and on the server name client) are declared in
  \<^verbatim>\<open>datum_adapter.hpp\<close>, and so are the texts of the errors of
  \<^verbatim>\<open>converter_from_datum_object_t\<close> and \<^verbatim>\<open>convert_vector_from_datum\<close>. They are
  parameters of the model. A conversion that can fail returns \<open>Inl\<close> of the text it
  leaves in \<^verbatim>\<open>error_out\<close>; \<^verbatim>\<open>convert_server_id_to_datum\<close> reports no text and
  returns \<open>None\<close> where the source returns \<^verbatim>\<open>false\<close>.
\<close>

record datum_adapter_t =
  convert_server_id_to_datum :: "server_id_t \<Rightarrow> datum_t option"
  convert_server_id_from_datum :: "datum_t \<Rightarrow> string + server_id_t"
  convert_name_from_datum :: "datum_t \<Rightarrow> string \<Rightarrow> string + name_string_t"
  convert_name_to_datum :: "name_string_t \<Rightarrow> datum_t"
  convert_uuid_from_datum :: "datum_t \<Rightarrow> string + uuid_u"
  convert_uuid_to_datum :: "uuid_u \<Rightarrow> datum_t"
  convert_string_from_datum :: "datum_t \<Rightarrow> string + string"
  convert_string_to_datum :: "string \<Rightarrow> datum_t"
  convert_database_id_from_datum :: "datum_t \<Rightarrow> string + database_id_t"
  datum_print :: "datum_t \<Rightarrow> string"
  expected_object_error :: "datum_t \<Rightarrow> string"
  expected_array_error :: "datum_t \<Rightarrow> string"
  missing_field_error :: "string \<Rightarrow> string"
  extra_keys_error :: "string list \<Rightarrow> string"

text \<open>
  Modelled from the spec: \<^verbatim>\<open>converter_from_datum_object_t\<close>, whose class is declared in
  \<^verbatim>\<open>datum_adapter.hpp\<close>. \<^verbatim>\<open>init\<close> confirms that the document is a keyed object,
  \<^verbatim>\<open>get\<close> requires a field and consumes its key, \<^verbatim>\<open>has\<close> tests for a field, and
  \<^verbatim>\<open>check_no_extra_keys\<close> rejects a document with a key that no \<^verbatim>\<open>get\<close> consumed.
\<close>

record converter_from_datum_object_t =
  conv_fields :: "(string \<times> datum_t) list"
  extra_keys :: "string list"

definition converter_init ::
  "datum_adapter_t \<Rightarrow> datum_t \<Rightarrow> string + converter_from_datum_object_t" where
  "converter_init A datum =
     (case datum of
        R_OBJECT kvs \<Rightarrow> Inr \<lparr>conv_fields = kvs, extra_keys = map fst kvs\<rparr>
      | _ \<Rightarrow> Inl (expected_object_error A datum))"

definition converter_get ::
  "datum_adapter_t \<Rightarrow> string \<Rightarrow> converter_from_datum_object_t \<Rightarrow>
     string + (datum_t \<times> converter_from_datum_object_t)" where
  "converter_get A key c =
     (case map_of (conv_fields c) key of
        None \<Rightarrow> Inl (missing_field_error A key)
      | Some v \<Rightarrow> Inr (v, c\<lparr>extra_keys := removeAll key (extra_keys c)\<rparr>))"

definition converter_has :: "converter_from_datum_object_t \<Rightarrow> string \<Rightarrow> bool" where
  "converter_has c key = (map_of (conv_fields c) key \<noteq> None)"

definition check_no_extra_keys ::
  "datum_adapter_t \<Rightarrow> converter_from_datum_object_t \<Rightarrow> string + unit" where
  "check_no_extra_keys A c =
     (if extra_keys c \<noteq> [] then Inl (extra_keys_error A (extra_keys c)) else Inr ())"

text \<open>
  \<^verbatim>\<open>ql::datum_object_builder_t::overwrite\<close>: sets a field, replacing the value of a key
  that is already there.
\<close>

fun overwrite :: "string \<Rightarrow> datum_t \<Rightarrow> (string \<times> datum_t) list \<Rightarrow> (string \<times> datum_t) list" where
  "overwrite key v [] = [(key, v)]"
| "overwrite key v ((k, w) # kvs) =
     (if k = key then (key, v) # kvs else (k, w) # overwrite key v kvs)"

section \<open>The configuration of a shard\<close>

text \<open>
  \<^verbatim>\<open>table_config_t::shard_t\<close>. The \<^verbatim>\<open>std::set<server_id_t>\<close> of the replicas is the
  list of its elements in the order the set iterates in (ascending); \<^verbatim>\<open>insert\<close>
  returns the set and whether the element was new, \<^verbatim>\<open>count\<close> is 0 or 1.
\<close>

record shard_t =
  replicas :: "server_id_t list"
  director :: server_id_t

definition std_set_insert :: "server_id_t \<Rightarrow> server_id_t list \<Rightarrow> server_id_t list \<times> bool" where
  "std_set_insert x xs = (if x \<in> set xs then (xs, False) else (insort x xs, True))"

definition std_set_count :: "server_id_t list \<Rightarrow> server_id_t \<Rightarrow> nat" where
  "std_set_count xs x = (if x \<in> set xs then 1 else 0)"

subsection \<open>convert_table_config_shard_to_datum\<close>

text \<open>
  The loop over \<^verbatim>\<open>shard.replicas\<close>: a replica that
  \<^verbatim>\<open>convert_server_id_to_datum\<close> converts is added to the array builder, the others are
  passed over.
\<close>

fun replicas_to_datum ::
  "datum_adapter_t \<Rightarrow> server_id_t list \<Rightarrow> datum_t list \<Rightarrow> datum_t list" where
  "replicas_to_datum A [] replicas_builder = replicas_builder"
| "replicas_to_datum A (replica # rest) replicas_builder =
     (case convert_server_id_to_datum A replica of
        Some replica_datum \<Rightarrow> replicas_to_datum A rest (replicas_builder @ [replica_datum])
      | None \<Rightarrow> replicas_to_datum A rest replicas_builder)"

definition convert_table_config_shard_to_datum :: "datum_adapter_t \<Rightarrow> shard_t \<Rightarrow> datum_t" where
  "convert_table_config_shard_to_datum A shard =
     (let builder = overwrite ''replicas''
            (R_ARRAY (replicas_to_datum A (replicas shard) [])) [];
          director_datum =
            (case convert_server_id_to_datum A (director shard) of
               None \<Rightarrow> R_NULL
             | Some d \<Rightarrow> d)
      in R_OBJECT (overwrite ''director'' director_datum builder))"

subsection \<open>convert_table_config_shard_from_datum\<close>

text \<open>
  The loop over the elements of \<^verbatim>\<open>replicas_datum\<close>, from the set built so far. (The
  source prints an undeclared \<^verbatim>\<open>replica_names_datum\<close> in the message for a
  \<^verbatim>\<open>replicas\<close> that is no array; the model prints \<^verbatim>\<open>replicas_datum\<close>.)
\<close>

fun replicas_from_datum ::
  "datum_adapter_t \<Rightarrow> datum_t list \<Rightarrow> server_id_t list \<Rightarrow> string + server_id_t list" where
  "replicas_from_datum A [] acc = Inr acc"
| "replicas_from_datum A (d # ds) acc =
     (case convert_server_id_from_datum A d of
        Inl e \<Rightarrow> Inl (''In `replicas`: '' @ e)
      | Inr server_id \<Rightarrow>
          (case std_set_insert server_id acc of
             (acc', inserted) \<Rightarrow>
               if \<not> inserted then Inl ''In `replicas`: A server is listed more than once.''
               else replicas_from_datum A ds acc'))"

definition convert_table_config_shard_from_datum ::
  "datum_adapter_t \<Rightarrow> datum_t \<Rightarrow> string + shard_t" where
  "convert_table_config_shard_from_datum A datum =
     (case converter_init A datum of
        Inl e \<Rightarrow> Inl e
      | Inr converter \<Rightarrow>
     (case converter_get A ''replicas'' converter of
        Inl e \<Rightarrow> Inl e
      | Inr (replicas_datum, converter1) \<Rightarrow>
     (case replicas_datum of
        R_ARRAY elems \<Rightarrow>
          (case replicas_from_datum A elems [] of
             Inl e \<Rightarrow> Inl e
           | Inr rs \<Rightarrow>
               if rs = [] then Inl ''You must specify at least one replica for each shard.''
               else
          (case converter_get A ''director'' converter1 of
             Inl e \<Rightarrow> Inl e
           | Inr (director_datum, converter2) \<Rightarrow>
          (case (if director_datum = R_NULL then Inr nil_uuid
                 else (case convert_server_id_from_datum A director_datum of
                         Inl e \<Rightarrow> Inl (''In `director`: '' @ e)
                       | Inr dir \<Rightarrow>
                           if std_set_count rs dir \<noteq> 1
                           then Inl ''The director must be one of the replicas.''
                           else Inr dir)) of
             Inl e \<Rightarrow> Inl e
           | Inr dir \<Rightarrow>
          (case check_no_extra_keys A converter2 of
             Inl e \<Rightarrow> Inl e
           | Inr _ \<Rightarrow> Inr \<lparr>replicas = rs, director = dir\<rparr>))))
      | _ \<Rightarrow> Inl (''In `replicas`: Expected an array, got '' @ datum_print A replicas_datum))))"

section \<open>The configuration of a table and the metadata of the cluster\<close>

text \<open>
  Modelled from the spec: \<^verbatim>\<open>table_shard_scheme_t\<close> (split_points.hpp), opaque to this
  code but for its default value and \<^verbatim>\<open>one_shard()\<close>, the trivial scheme of a single
  shard: a scheme is the list of its split points.
\<close>

datatype table_shard_scheme_t = Split_points "string list"

definition default_shard_scheme :: table_shard_scheme_t where
  "default_shard_scheme = Split_points []"

definition one_shard :: table_shard_scheme_t where
  "one_shard = Split_points []"

record table_config_t =
  shards :: "shard_t list"

record table_replication_info_t =
  config :: table_config_t
  shard_scheme :: table_shard_scheme_t

text \<open>
  Modelled from the spec: \<^verbatim>\<open>versioned_t\<close>, a value with its version stamp, which
  \<^verbatim>\<open>set\<close> advances; and \<^verbatim>\<open>deletable_t\<close>, an entry that is live or marked deleted
  and stays in the map once deleted (\<^verbatim>\<open>is_deleted()\<close> is the case \<open>Deleted\<close>).
\<close>

datatype 'a versioned_t = Versioned (get_ref: 'a) (stamp: nat)

definition versioned :: "'a \<Rightarrow> 'a versioned_t" where
  "versioned v = Versioned v 0"

definition versioned_set :: "'a \<Rightarrow> 'a versioned_t \<Rightarrow> 'a versioned_t" where
  "versioned_set v old = Versioned v (Suc (stamp old))"

datatype 'a deletable_t = Live 'a | Deleted

definition mark_deleted :: "'a deletable_t \<Rightarrow> 'a deletable_t" where
  "mark_deleted d = Deleted"

record namespace_semilattice_metadata_t =
  name :: "name_string_t versioned_t"
  database :: "database_id_t versioned_t"
  primary_key :: "string versioned_t"
  replication_info :: "table_replication_info_t versioned_t"

text \<open>
  A \<^verbatim>\<open>std::map\<close> is the list of its entries, read through \<open>map_of\<close>; the order of
  the keys is not observed by this code. \<open>std_map_set\<close> is the assignment
  \<^verbatim>\<open>m[k] = v\<close>, which also stands for a write through an iterator at \<open>k\<close>.
\<close>

fun std_map_set :: "'k \<Rightarrow> 'v \<Rightarrow> ('k \<times> 'v) list \<Rightarrow> ('k \<times> 'v) list" where
  "std_map_set key v [] = [(key, v)]"
| "std_map_set key v ((k, w) # kvs) =
     (if k = key then (key, v) # kvs else (k, w) # std_map_set key v kvs)"

record namespaces_semilattice_metadata_t =
  namespaces :: "(namespace_id_t \<times> namespace_semilattice_metadata_t deletable_t) list"

text \<open>
  Modelled from the spec: \<^verbatim>\<open>search_metadata_by_uuid\<close> (metadata.hpp), which finds the
  entry of an identifier among the entries that are not deleted.
\<close>

definition search_metadata_by_uuid ::
  "(namespace_id_t \<times> namespace_semilattice_metadata_t deletable_t) list \<Rightarrow> namespace_id_t \<Rightarrow>
     namespace_semilattice_metadata_t option" where
  "search_metadata_by_uuid m table_id =
     (case map_of m table_id of
        Some (Live e) \<Rightarrow> Some e
      | _ \<Rightarrow> None)"

text \<open>
  Modelled from the spec: \<^verbatim>\<open>metadata_searcher_t::find_uniq\<close> with a
  \<^verbatim>\<open>namespace_predicate_t\<close> of a name and a database (metadata.hpp), which searches
  the entries that are not deleted for those of that name in that database, and
  reports whether there is none, one or several.
\<close>

datatype metadata_search_status_t = METADATA_SUCCESS | METADATA_ERR_NONE | METADATA_ERR_MULTIPLE

definition namespace_predicate ::
  "name_string_t \<Rightarrow> database_id_t \<Rightarrow> namespace_semilattice_metadata_t deletable_t \<Rightarrow> bool" where
  "namespace_predicate table_name db_id entry =
     (case entry of
        Deleted \<Rightarrow> False
      | Live e \<Rightarrow> get_ref (name e) = table_name \<and> get_ref (database e) = db_id)"

definition find_uniq ::
  "(namespace_id_t \<times> namespace_semilattice_metadata_t deletable_t) list \<Rightarrow>
     name_string_t \<Rightarrow> database_id_t \<Rightarrow> metadata_search_status_t" where
  "find_uniq m table_name db_id =
     (case filter (\<lambda>(k, entry). namespace_predicate table_name db_id entry) m of
        [] \<Rightarrow> METADATA_ERR_NONE
      | [_] \<Rightarrow> METADATA_SUCCESS
      | _ \<Rightarrow> METADATA_ERR_MULTIPLE)"

text \<open>
  The collaborators of the backend, declared in generate_config.hpp, split_points.hpp
  and the backend's own header: the generator of a default configuration (called with
  the identifier of the table, the usage of the servers and a shard scheme), the
  count of the servers a configuration uses, the recalculation of the split points
  (called with the table, the number of shards and the previous scheme), the display
  identity of a database, and the join of the semilattice view of the tables.
\<close>

record cluster_t =
  table_generate_config ::
    "namespace_id_t \<Rightarrow> (server_id_t \<times> int) list \<Rightarrow> table_shard_scheme_t \<Rightarrow> string + table_config_t"
  calculate_server_usage ::
    "table_config_t \<Rightarrow> (server_id_t \<times> int) list \<Rightarrow> (server_id_t \<times> int) list"
  calculate_split_points_intelligently ::
    "namespace_id_t \<Rightarrow> nat \<Rightarrow> table_shard_scheme_t \<Rightarrow> string + table_shard_scheme_t"
  get_db_identifier :: "database_id_t \<Rightarrow> datum_t"
  semilattice_join ::
    "namespaces_semilattice_metadata_t \<Rightarrow> namespaces_semilattice_metadata_t \<Rightarrow>
       namespaces_semilattice_metadata_t"

section \<open>The row of a table\<close>

text \<open>
  Modelled from the spec: \<^verbatim>\<open>convert_vector_to_datum\<close> and
  \<^verbatim>\<open>convert_vector_from_datum\<close> (datum_adapter.hpp), which convert a sequence element
  by element, in order; the second requires an array and stops at the first element
  that fails.
\<close>

definition convert_vector_to_datum :: "('a \<Rightarrow> datum_t) \<Rightarrow> 'a list \<Rightarrow> datum_t" where
  "convert_vector_to_datum conv xs = R_ARRAY (map conv xs)"

fun convert_elements :: "(datum_t \<Rightarrow> string + 'a) \<Rightarrow> datum_t list \<Rightarrow> string + 'a list" where
  "convert_elements conv [] = Inr []"
| "convert_elements conv (d # ds) =
     (case conv d of
        Inl e \<Rightarrow> Inl e
      | Inr x \<Rightarrow>
          (case convert_elements conv ds of
             Inl e \<Rightarrow> Inl e
           | Inr xs \<Rightarrow> Inr (x # xs)))"

definition convert_vector_from_datum ::
  "datum_adapter_t \<Rightarrow> (datum_t \<Rightarrow> string + 'a) \<Rightarrow> datum_t \<Rightarrow> string + 'a list" where
  "convert_vector_from_datum A conv datum =
     (case datum of
        R_ARRAY ds \<Rightarrow> convert_elements conv ds
      | _ \<Rightarrow> Inl (expected_array_error A datum))"

subsection \<open>convert_table_config_to_datum and format_row\<close>

definition convert_table_config_to_datum :: "datum_adapter_t \<Rightarrow> table_config_t \<Rightarrow> datum_t" where
  "convert_table_config_to_datum A cfg =
     R_OBJECT (overwrite ''shards''
       (convert_vector_to_datum (convert_table_config_shard_to_datum A) (shards cfg)) [])"

definition format_row ::
  "datum_adapter_t \<Rightarrow> namespace_id_t \<Rightarrow> name_string_t \<Rightarrow> datum_t \<Rightarrow>
     namespace_semilattice_metadata_t \<Rightarrow> datum_t" where
  "format_row A table_id table_name db metadata =
     (let start = convert_table_config_to_datum A (config (get_ref (replication_info metadata)));
          builder = (case start of R_OBJECT kvs \<Rightarrow> kvs | _ \<Rightarrow> []);
          builder = overwrite ''name'' (convert_name_to_datum A table_name) builder;
          builder = overwrite ''db'' db builder;
          builder = overwrite ''id'' (convert_uuid_to_datum A table_id) builder;
          builder = overwrite ''primary_key''
            (convert_string_to_datum A (get_ref (primary_key metadata))) builder
      in R_OBJECT builder)"

subsection \<open>convert_table_config_and_name_from_datum\<close>

record table_row_t =
  table_name_out :: name_string_t
  db_out :: datum_t
  id_out :: namespace_id_t
  config_out :: table_config_t
  primary_key_out :: string

text \<open>
  The loop that counts, over the tables that are not deleted, how much each server
  is used.
\<close>

fun server_usage_of ::
  "cluster_t \<Rightarrow> (namespace_id_t \<times> namespace_semilattice_metadata_t deletable_t) list \<Rightarrow>
     (server_id_t \<times> int) list \<Rightarrow> (server_id_t \<times> int) list" where
  "server_usage_of C [] server_usage = server_usage"
| "server_usage_of C ((table_id, entry) # rest) server_usage =
     (case entry of
        Deleted \<Rightarrow> server_usage_of C rest server_usage
      | Live e \<Rightarrow>
          server_usage_of C rest
            (calculate_server_usage C (config (get_ref (replication_info e))) server_usage))"

text \<open>
  The two statements \<^verbatim>\<open>if (existed_before || converter.has(...))\<close> of the function,
  for \<open>primary_key\<close> and for \<open>shards\<close>, each from the converter it finds to the
  value it decodes and the converter it leaves.
\<close>

definition primary_key_from_datum ::
  "datum_adapter_t \<Rightarrow> bool \<Rightarrow> converter_from_datum_object_t \<Rightarrow>
     string + (string \<times> converter_from_datum_object_t)" where
  "primary_key_from_datum A existed_before converter =
     (if existed_before \<or> converter_has converter ''primary_key'' then
        (case converter_get A ''primary_key'' converter of
           Inl e \<Rightarrow> Inl e
         | Inr (primary_key_datum, converter') \<Rightarrow>
             (case convert_string_from_datum A primary_key_datum of
                Inl e \<Rightarrow> Inl (''In `primary_key`: '' @ e)
              | Inr pk \<Rightarrow> Inr (pk, converter')))
      else Inr (''id'', converter))"

definition shards_from_datum ::
  "datum_adapter_t \<Rightarrow> cluster_t \<Rightarrow> bool \<Rightarrow> namespaces_semilattice_metadata_t \<Rightarrow>
     converter_from_datum_object_t \<Rightarrow> string + (table_config_t \<times> converter_from_datum_object_t)" where
  "shards_from_datum A C existed_before all_table_metadata converter =
     (if existed_before \<or> converter_has converter ''shards'' then
        (case converter_get A ''shards'' converter of
           Inl e \<Rightarrow> Inl e
         | Inr (shards_datum, converter') \<Rightarrow>
             (case convert_vector_from_datum A (convert_table_config_shard_from_datum A)
                     shards_datum of
                Inl e \<Rightarrow> Inl (''In `shards`: '' @ e)
              | Inr shs \<Rightarrow>
                  if shs = [] then Inl ''In `shards`: You must specify at least one shard.''
                  else Inr (\<lparr>shards = shs\<rparr>, converter')))
      else
        (case table_generate_config C nil_uuid
                (server_usage_of C (namespaces all_table_metadata) []) default_shard_scheme of
           Inl e \<Rightarrow> Inl (''When generating configuration for new table: '' @ e)
         | Inr cfg \<Rightarrow> Inr (cfg, converter)))"

definition convert_table_config_and_name_from_datum ::
  "datum_adapter_t \<Rightarrow> cluster_t \<Rightarrow> datum_t \<Rightarrow> bool \<Rightarrow> namespaces_semilattice_metadata_t \<Rightarrow>
     string + table_row_t" where
  "convert_table_config_and_name_from_datum A C datum existed_before all_table_metadata =
     (case converter_init A datum of
        Inl e \<Rightarrow> Inl e
      | Inr converter \<Rightarrow>
     (case converter_get A ''name'' converter of
        Inl e \<Rightarrow> Inl e
      | Inr (name_datum, converter1) \<Rightarrow>
     (case convert_name_from_datum A name_datum ''table name'' of
        Inl e \<Rightarrow> Inl (''In `name`: '' @ e)
      | Inr table_name \<Rightarrow>
     (case converter_get A ''db'' converter1 of
        Inl e \<Rightarrow> Inl e
      | Inr (db, converter2) \<Rightarrow>
     (case converter_get A ''id'' converter2 of
        Inl e \<Rightarrow> Inl e
      | Inr (id_datum, converter3) \<Rightarrow>
     (case convert_uuid_from_datum A id_datum of
        Inl e \<Rightarrow> Inl (''In `id`: '' @ e)
      | Inr table_id \<Rightarrow>
     (case primary_key_from_datum A existed_before converter3 of
        Inl e \<Rightarrow> Inl e
      | Inr (pk, converter4) \<Rightarrow>
     (case shards_from_datum A C existed_before all_table_metadata converter4 of
        Inl e \<Rightarrow> Inl e
      | Inr (cfg, converter5) \<Rightarrow>
     (case check_no_extra_keys A converter5 of
        Inl e \<Rightarrow> Inl e
      | Inr _ \<Rightarrow>
          Inr \<lparr>table_name_out = table_name, db_out = db, id_out = table_id,
               config_out = cfg, primary_key_out = pk\<rparr>)))))))))"

section \<open>write_row\<close>

text \<open>
  A call of \<^verbatim>\<open>write_row\<close> returns \<^verbatim>\<open>true\<close>, returns \<^verbatim>\<open>false\<close> with a text in
  \<^verbatim>\<open>error_out\<close>, or stops the process at a \<^verbatim>\<open>guarantee\<close> that fails.
\<close>

datatype write_result = Write_ok | Write_error string | Guarantee_failed string

text \<open>
  The state that a call reads and writes is the content of the semilattice view of the
  tables, \<open>shared\<close>: \<^verbatim>\<open>table_sl_view->get()\<close> copies it into \<open>md\<close>, every change
  is made to that copy, and \<^verbatim>\<open>table_sl_view->join(md)\<close> merges the copy into the view.
  The function returns its result, the content of \<^verbatim>\<open>new_value_inout\<close> (\<open>None\<close> for a
  datum that \<^verbatim>\<open>has()\<close> nothing) and the content of the view.

  The switch to the home thread and the interruptor, which is handed on to the
  collaborators, have no part in what the function computes.

  The source names the key \<^verbatim>\<open>primary_key\<close> (here \<open>pkey\<close>, as the record field has that
  name). It also names a \<^verbatim>\<open>new_db_name\<close> that this translation unit never declares: it
  is a parameter of the model, a name in the messages and the \<^verbatim>\<open>db\<close> of the row that
  \<^verbatim>\<open>format_row\<close> writes back.
\<close>

text \<open>
  The two messages of a name collision, as \<^verbatim>\<open>strprintf\<close> builds them from the formats
  \<^verbatim>\<open>Table `%s.%s` already exists.\<close> and \<^verbatim>\<open>Cannot rename table `%s.%s` to `%s.%s`
  because table `%s.%s` already exists.\<close>
\<close>

definition table_exists_error :: "name_string_t \<Rightarrow> name_string_t \<Rightarrow> string" where
  "table_exists_error new_db_name new_table_name =
     ''Table `'' @ new_db_name @ ''.'' @ new_table_name @ ''` already exists.''"

definition rename_error :: "name_string_t \<Rightarrow> name_string_t \<Rightarrow> name_string_t \<Rightarrow> string" where
  "rename_error new_db_name old_table_name new_table_name =
     ''Cannot rename table `'' @ new_db_name @ ''.'' @ old_table_name @ ''` to `'' @
     new_db_name @ ''.'' @ new_table_name @ ''` because table `'' @ new_db_name @ ''.'' @
     new_table_name @ ''` already exists.''"

definition write_row ::
  "datum_adapter_t \<Rightarrow> cluster_t \<Rightarrow> name_string_t \<Rightarrow> datum_t \<Rightarrow> bool \<Rightarrow> datum_t option \<Rightarrow>
     namespaces_semilattice_metadata_t \<Rightarrow>
     write_result \<times> datum_t option \<times> namespaces_semilattice_metadata_t" where
  "write_row A C new_db_name pkey pkey_was_autogenerated new_value_inout shared =
     (let md = shared in
      case (case convert_uuid_from_datum A pkey of
              Inr u \<Rightarrow> Inr u
            | Inl dummy_error \<Rightarrow>
                if pkey_was_autogenerated
                then Inl ''auto-generated primary key should have been a valid UUID string.''
                else Inr nil_uuid) of
        Inl g \<Rightarrow> (Guarantee_failed g, new_value_inout, shared)
      | Inr table_id \<Rightarrow>
     (let it = search_metadata_by_uuid (namespaces md) table_id;
          existed_before = (it \<noteq> None)
      in
      case new_value_inout of
        Some new_value \<Rightarrow>
          (case convert_table_config_and_name_from_datum A C new_value existed_before md of
             Inl e \<Rightarrow>
               (Write_error (''The change you're trying to make to '' @
                  ''`rethinkdb.table_config` has the wrong format. '' @ e),
                new_value_inout, shared)
           | Inr row \<Rightarrow>
          if id_out row \<noteq> table_id then
            (Guarantee_failed
               ''artificial_table_t should ensure that the primary key doesn't change.'',
             new_value_inout, shared)
          else if existed_before \<and> pkey_was_autogenerated then
            (Guarantee_failed ''UUID collision happened'', new_value_inout, shared)
          else if \<not> existed_before \<and> \<not> pkey_was_autogenerated then
            (Write_error (''If you want to create a new table by inserting into '' @
               ''`rethinkdb.table_config`, you must use an auto-generated primary '' @
               ''key.''),
             new_value_inout, shared)
          else if \<not> existed_before \<and> map_of (namespaces md) table_id \<noteq> None then
            (Guarantee_failed ''UUID collision happened'', new_value_inout, shared)
          else
          (case (case it of
                   Some entry \<Rightarrow>
                     (let db_id = get_ref (database entry) in
                      if db_out row \<noteq> get_db_identifier C db_id
                      then Inl ''It's illegal to change a table's `database` field.''
                      else Inr db_id)
                 | None \<Rightarrow> convert_database_id_from_datum A (db_out row)) of
             Inl e \<Rightarrow> (Write_error e, new_value_inout, shared)
           | Inr db_id \<Rightarrow>
          if (case it of
                Some entry \<Rightarrow> primary_key_out row \<noteq> get_ref (primary_key entry)
              | None \<Rightarrow> False) then
            (Write_error ''It's illegal to change a table's primary key.'',
             new_value_inout, shared)
          else
          (case (case it of
                   Some entry \<Rightarrow>
                     (let prev = get_ref (replication_info entry) in
                      calculate_split_points_intelligently C table_id
                        (length (shards (config_out row))) (shard_scheme prev))
                 | None \<Rightarrow>
                     if length (shards (config_out row)) \<noteq> 1
                     then Inl ''Newly created tables must start with exactly one shard''
                     else Inr one_shard) of
             Inl e \<Rightarrow> (Write_error e, new_value_inout, shared)
           | Inr scheme \<Rightarrow>
          (let replication_info' = \<lparr>config = config_out row, shard_scheme = scheme\<rparr>;
               new_table_name = table_name_out row;
               old_table_name = (case it of Some entry \<Rightarrow> get_ref (name entry) | None \<Rightarrow> [])
           in
           if (\<not> existed_before \<or> new_table_name \<noteq> old_table_name) \<and>
              find_uniq (namespaces md) new_table_name db_id \<noteq> METADATA_ERR_NONE then
             (if \<not> existed_before then
                (Write_error (table_exists_error new_db_name new_table_name),
                 new_value_inout, shared)
              else
                (Write_error (rename_error new_db_name old_table_name new_table_name),
                 new_value_inout, shared))
           else
           (let table_md =
                  (case it of
                     Some entry \<Rightarrow>
                       entry\<lparr>name := versioned_set new_table_name (name entry),
                             replication_info :=
                               versioned_set replication_info' (replication_info entry)\<rparr>
                   | None \<Rightarrow>
                       \<lparr>name = versioned new_table_name,
                        database = versioned db_id,
                        primary_key = versioned (primary_key_out row),
                        replication_info = versioned replication_info'\<rparr>);
                md' = md\<lparr>namespaces := std_map_set table_id (Live table_md) (namespaces md)\<rparr>
            in (Write_ok,
                Some (format_row A table_id new_table_name (R_STR new_db_name) table_md),
                semilattice_join C shared md'))))))
      | None \<Rightarrow>
          (case it of
             Some entry \<Rightarrow>
               if pkey_was_autogenerated then
                 (Guarantee_failed ''UUID collision happened'', new_value_inout, shared)
               else
                 (Write_ok, new_value_inout,
                  semilattice_join C shared
                    (md\<lparr>namespaces := std_map_set table_id (mark_deleted (Live entry))
                                          (namespaces md)\<rparr>))
           | None \<Rightarrow> (Write_ok, new_value_inout, semilattice_join C shared md))))"

text \<open>
  A server resolves when \<^verbatim>\<open>convert_server_id_to_datum\<close> converts its identifier.
\<close>

definition resolves :: "datum_adapter_t \<Rightarrow> server_id_t \<Rightarrow> bool" where
  "resolves A sid = (convert_server_id_to_datum A sid \<noteq> None)"

text \<open>
  The servers that the entries of an array of replicas denote: those that
  \<^verbatim>\<open>convert_server_id_from_datum\<close> converts an entry to.
\<close>

definition denoted_servers :: "datum_adapter_t \<Rightarrow> datum_t list \<Rightarrow> server_id_t set" where
  "denoted_servers A elems =
     set (concat (map (\<lambda>e. case convert_server_id_from_datum A e of
                               Inr sid \<Rightarrow> [sid]
                             | Inl err \<Rightarrow> []) elems))"

text \<open>
  The converter of a table's document once \<open>name\<close>, \<open>db\<close> and \<open>id\<close> have been read,
  and the keys of a document that are none of \<open>name\<close>, \<open>db\<close>, \<open>id\<close> and
  \<open>primary_key\<close>.
\<close>

definition converter_after_id :: "(string \<times> datum_t) list \<Rightarrow> converter_from_datum_object_t" where
  "converter_after_id kvs =
     \<lparr>conv_fields = kvs,
      extra_keys = removeAll ''id'' (removeAll ''db'' (removeAll ''name'' (map fst kvs)))\<rparr>"

definition unknown_keys :: "(string \<times> datum_t) list \<Rightarrow> string list" where
  "unknown_keys kvs =
     filter (\<lambda>k. k \<notin> {''name'', ''db'', ''id'', ''primary_key''}) (map fst kvs)"

text \<open>
  A name is taken in a database when an entry that is not deleted has that name in
  that database.
\<close>

definition name_taken ::
  "(namespace_id_t \<times> namespace_semilattice_metadata_t deletable_t) list \<Rightarrow>
     name_string_t \<Rightarrow> database_id_t \<Rightarrow> bool" where
  "name_taken m table_name db_id =
     (\<exists>(k, entry) \<in> set m. namespace_predicate table_name db_id entry)"

section \<open>A small cluster for the examples\<close>

text \<open>
  Three servers, 1, 2 and 3, displayed as \<open>a\<close>, \<open>b\<close> and \<open>c\<close>; the tables 11 and 12,
  written \<open>t11\<close> and \<open>t12\<close>, and a fresh identifier 13, written \<open>t13\<close>; the database
  21, displayed as \<open>test\<close>. In \<open>ex_adapter_removed\<close> the server 1 has been removed
  permanently: neither its name nor its identifier converts any more.
\<close>

definition ex_server_id_from_datum :: "datum_t \<Rightarrow> string + server_id_t" where
  "ex_server_id_from_datum d =
     (if d = R_STR ''a'' then Inr 1
      else if d = R_STR ''b'' then Inr 2
      else if d = R_STR ''c'' then Inr 3
      else Inl ''No such server.'')"

definition ex_server_id_to_datum :: "server_id_t \<Rightarrow> datum_t option" where
  "ex_server_id_to_datum s =
     (if s = 1 then Some (R_STR ''a'')
      else if s = 2 then Some (R_STR ''b'')
      else if s = 3 then Some (R_STR ''c'')
      else None)"

definition ex_adapter :: datum_adapter_t where
  "ex_adapter =
     \<lparr>convert_server_id_to_datum = ex_server_id_to_datum,
      convert_server_id_from_datum = ex_server_id_from_datum,
      convert_name_from_datum =
        (\<lambda>d what. case d of R_STR s \<Rightarrow> Inr s | _ \<Rightarrow> Inl (''Expected a '' @ what)),
      convert_name_to_datum = R_STR,
      convert_uuid_from_datum =
        (\<lambda>d. if d = R_STR ''t11'' then Inr 11
             else if d = R_STR ''t12'' then Inr 12
             else if d = R_STR ''t13'' then Inr 13
             else Inl ''Expected a UUID''),
      convert_uuid_to_datum =
        (\<lambda>u. if u = 11 then R_STR ''t11'' else if u = 12 then R_STR ''t12'' else R_STR ''t13''),
      convert_string_from_datum =
        (\<lambda>d. case d of R_STR s \<Rightarrow> Inr s | _ \<Rightarrow> Inl ''Expected a string''),
      convert_string_to_datum = R_STR,
      convert_database_id_from_datum =
        (\<lambda>d. if d = R_STR ''test'' then Inr 21 else Inl ''No such database.''),
      datum_print = (\<lambda>d. ''a datum''),
      expected_object_error = (\<lambda>d. ''Expected an object''),
      expected_array_error = (\<lambda>d. ''Expected an array''),
      missing_field_error = (\<lambda>key. ''Expected a field named `'' @ key @ ''`.''),
      extra_keys_error = (\<lambda>keys. ''Unexpected key(s): '' @ concat keys)\<rparr>"

definition ex_adapter_removed :: datum_adapter_t where
  "ex_adapter_removed =
     ex_adapter
       \<lparr>convert_server_id_to_datum := (\<lambda>s. if s = 1 then None else ex_server_id_to_datum s),
        convert_server_id_from_datum :=
          (\<lambda>d. if d = R_STR ''a'' then Inl ''No such server.'' else ex_server_id_from_datum d)\<rparr>"

definition ex_shard_datum :: "string list \<Rightarrow> datum_t \<Rightarrow> datum_t" where
  "ex_shard_datum rs dir = R_OBJECT [(''replicas'', R_ARRAY (map R_STR rs)), (''director'', dir)]"

text \<open>
  The collaborators of the examples: the generator places a new table on the server 1,
  the recalculation gives a scheme of as many shards as asked for, and the join of
  the view takes the copy that is written back. Two tables, \<open>users\<close> and \<open>posts\<close>,
  live in the database 21; the table 14 was deleted.
\<close>

definition ex_cluster :: cluster_t where
  "ex_cluster =
     \<lparr>table_generate_config =
        (\<lambda>table_id usage scheme. Inr \<lparr>shards = [\<lparr>replicas = [1], director = 1\<rparr>]\<rparr>),
      calculate_server_usage =
        (\<lambda>cfg usage. map (\<lambda>s. (director s, 1)) (shards cfg) @ usage),
      calculate_split_points_intelligently =
        (\<lambda>table_id n prev.
           if n = 0 then Inl ''Cannot split into zero shards.''
           else Inr (Split_points (replicate (n - 1) ''m''))),
      get_db_identifier = (\<lambda>db. if db = 21 then R_STR ''test'' else R_NULL),
      semilattice_join = (\<lambda>view md. md)\<rparr>"

definition ex_table :: "name_string_t \<Rightarrow> namespace_semilattice_metadata_t" where
  "ex_table table_name =
     \<lparr>name = versioned table_name,
      database = versioned 21,
      primary_key = versioned ''id'',
      replication_info =
        versioned \<lparr>config = \<lparr>shards = [\<lparr>replicas = [1, 2], director = 1\<rparr>]\<rparr>,
                   shard_scheme = one_shard\<rparr>\<rparr>"

definition ex_metadata :: namespaces_semilattice_metadata_t where
  "ex_metadata =
     \<lparr>namespaces = [(11, Live (ex_table ''users'')), (12, Live (ex_table ''posts'')),
                    (14, Deleted)]\<rparr>"

definition ex_row_datum :: "string \<Rightarrow> string \<Rightarrow> (string \<times> datum_t) list \<Rightarrow> datum_t" where
  "ex_row_datum table_name table_id rest =
     R_OBJECT ([(''name'', R_STR table_name), (''db'', R_STR ''test''),
                (''id'', R_STR table_id)] @ rest)"

definition ex_table_datum ::
  "string \<Rightarrow> string \<Rightarrow> string \<Rightarrow> string \<Rightarrow> datum_t list \<Rightarrow> datum_t" where
  "ex_table_datum table_name db table_id pk shard_datums =
     R_OBJECT [(''name'', R_STR table_name), (''db'', R_STR db), (''id'', R_STR table_id),
               (''primary_key'', R_STR pk), (''shards'', R_ARRAY shard_datums)]"

section \<open>The shard decoder keeps the invariants of a shard\<close>

lemma std_set_insert_sorted:
  "std_set_insert x xs = (ys, b) \<Longrightarrow> sorted xs \<Longrightarrow> sorted ys"
  by (auto simp: std_set_insert_def sorted_insort split: if_splits)

lemma std_set_insert_distinct:
  "std_set_insert x xs = (ys, True) \<Longrightarrow> distinct xs \<Longrightarrow> distinct ys"
  by (auto simp: std_set_insert_def distinct_insort split: if_splits)

lemma std_set_insert_set:
  "std_set_insert x xs = (ys, b) \<Longrightarrow> set ys = insert x (set xs)"
  by (auto simp: std_set_insert_def set_insort_key split: if_splits)

lemma replicas_from_datum_inv:
  "replicas_from_datum A ds acc = Inr rs \<Longrightarrow> distinct acc \<Longrightarrow> sorted acc \<Longrightarrow>
     distinct rs \<and> sorted rs \<and> set acc \<subseteq> set rs"
proof (induction ds arbitrary: acc)
  case Nil
  then show ?case by simp
next
  case (Cons d ds)
  from Cons.prems(1) obtain sid where sid: "convert_server_id_from_datum A d = Inr sid"
    by (auto split: sum.splits)
  obtain acc' b where ins: "std_set_insert sid acc = (acc', b)"
    by (cases "std_set_insert sid acc")
  from Cons.prems(1) sid ins have b: "b" and rest: "replicas_from_datum A ds acc' = Inr rs"
    by (auto split: if_splits)
  from ins b Cons.prems(2) have d': "distinct acc'"
    by (auto dest: std_set_insert_distinct)
  from ins Cons.prems(3) have s': "sorted acc'"
    by (rule std_set_insert_sorted)
  from Cons.IH [OF rest d' s'] std_set_insert_set [OF ins] show ?case
    by auto
qed

lemma replicas_from_datum_dup:
  "map (convert_server_id_from_datum A) elems = map Inr ids \<Longrightarrow>
   \<not> distinct (ids @ acc) \<Longrightarrow> distinct acc \<Longrightarrow>
   replicas_from_datum A elems acc = Inl ''In `replicas`: A server is listed more than once.''"
proof (induction elems arbitrary: ids acc)
  case Nil
  then show ?case by simp
next
  case (Cons d ds)
  then obtain i is' where ids: "ids = i # is'" and d: "convert_server_id_from_datum A d = Inr i"
    and rest: "map (convert_server_id_from_datum A) ds = map Inr is'"
    by (cases ids) auto
  show ?case
  proof (cases "i \<in> set acc")
    case True
    with d show ?thesis by (simp add: std_set_insert_def)
  next
    case False
    have nd: "\<not> distinct (is' @ insort i acc)"
      using Cons.prems(2) False ids by (auto simp: set_insort_key distinct_insort)
    have da: "distinct (insort i acc)"
      using Cons.prems(3) False by (simp add: distinct_insort set_insort_key)
    from Cons.IH [OF rest nd da] d False show ?thesis
      by (simp add: std_set_insert_def)
  qed
qed

lemma replicas_from_datum_ok:
  "map (convert_server_id_from_datum A) elems = map Inr ids \<Longrightarrow>
   distinct (ids @ acc) \<Longrightarrow>
   \<exists>rs. replicas_from_datum A elems acc = Inr rs \<and> set rs = set ids \<union> set acc"
proof (induction elems arbitrary: ids acc)
  case Nil
  then show ?case by simp
next
  case (Cons d ds)
  then obtain i is' where ids: "ids = i # is'" and d: "convert_server_id_from_datum A d = Inr i"
    and rest: "map (convert_server_id_from_datum A) ds = map Inr is'"
    by (cases ids) auto
  from Cons.prems(2) ids have notin: "i \<notin> set acc" by auto
  have dd: "distinct (is' @ insort i acc)"
    using Cons.prems(2) ids by (auto simp: set_insort_key distinct_insort)
  from Cons.IH [OF rest dd] obtain rs where
    "replicas_from_datum A ds (insort i acc) = Inr rs" "set rs = set is' \<union> set (insort i acc)"
    by blast
  with d notin ids show ?case
    by (auto simp: std_set_insert_def set_insort_key)
qed

lemma shard_from_datum_accepted:
  assumes ok: "convert_table_config_shard_from_datum A datum = Inr shard"
  shows "replicas shard \<noteq> [] \<and> distinct (replicas shard) \<and> sorted (replicas shard) \<and>
      (\<exists>kvs dd. datum = R_OBJECT kvs \<and> map_of kvs ''director'' = Some dd \<and>
         (if dd = R_NULL then director shard = nil_uuid
          else director shard \<in> set (replicas shard)))"
proof -
  from ok obtain fs where obj: "datum = R_OBJECT fs"
    by (cases datum) (auto simp: convert_table_config_shard_from_datum_def converter_init_def)
  from ok obj obtain rd where rd: "map_of fs ''replicas'' = Some rd"
    by (auto simp: convert_table_config_shard_from_datum_def converter_init_def
        converter_get_def split: option.splits)
  from ok obj rd obtain es where arr: "rd = R_ARRAY es"
    by (cases rd) (auto simp: convert_table_config_shard_from_datum_def converter_init_def
        converter_get_def)
  from ok obj rd arr obtain rs where rs: "replicas_from_datum A es [] = Inr rs"
    by (auto simp: convert_table_config_shard_from_datum_def converter_init_def
        converter_get_def split: sum.splits)
  from ok obj rd arr rs have ne: "rs \<noteq> []"
    by (auto simp: convert_table_config_shard_from_datum_def converter_init_def
        converter_get_def split: if_splits)
  from ok obj rd arr rs ne obtain dv where dv: "map_of fs ''director'' = Some dv"
    by (auto simp: convert_table_config_shard_from_datum_def converter_init_def
        converter_get_def split: option.splits)
  from ok obj rd arr rs ne dv have sh: "replicas shard = rs"
    and dir: "if dv = R_NULL then director shard = nil_uuid else director shard \<in> set rs"
    by (auto simp: convert_table_config_shard_from_datum_def converter_init_def
        converter_get_def check_no_extra_keys_def std_set_count_def
        split: if_splits sum.splits)
  from replicas_from_datum_inv [OF rs] have "distinct rs" "sorted rs" by simp_all
  with sh ne dir obj dv show ?thesis by auto
qed

text \<open>
  C1. A shard that the decoder accepts has a replica, has no replica twice, and has
  for director the nil identifier where the document's \<open>director\<close> is null and one
  of its replicas otherwise. A document whose replicas all convert and that lists a
  server twice, one with an empty array of replicas, and one whose director is not
  null and converts to a server outside the replicas, are rejected, each with its
  message.
\<close>

theorem shard_from_datum_invariants:
  "(convert_table_config_shard_from_datum A datum = Inr shard \<longrightarrow>
      replicas shard \<noteq> [] \<and> distinct (replicas shard) \<and>
      (\<exists>kvs dd. datum = R_OBJECT kvs \<and> map_of kvs ''director'' = Some dd \<and>
         (if dd = R_NULL then director shard = nil_uuid
          else director shard \<in> set (replicas shard)))) \<and>
   (map_of kvs ''replicas'' = Some (R_ARRAY elems) \<and>
    map (convert_server_id_from_datum A) elems = map Inr ids \<and> \<not> distinct ids \<longrightarrow>
      convert_table_config_shard_from_datum A (R_OBJECT kvs) =
        Inl ''In `replicas`: A server is listed more than once.'') \<and>
   (map_of kvs ''replicas'' = Some (R_ARRAY []) \<longrightarrow>
      convert_table_config_shard_from_datum A (R_OBJECT kvs) =
        Inl ''You must specify at least one replica for each shard.'') \<and>
   (map_of kvs ''replicas'' = Some (R_ARRAY elems) \<and>
    map (convert_server_id_from_datum A) elems = map Inr ids \<and> distinct ids \<and> ids \<noteq> [] \<and>
    map_of kvs ''director'' = Some dd \<and> dd \<noteq> R_NULL \<and>
    convert_server_id_from_datum A dd = Inr dir \<and> dir \<notin> set ids \<longrightarrow>
      convert_table_config_shard_from_datum A (R_OBJECT kvs) =
        Inl ''The director must be one of the replicas.'')"
proof -
  have inv: "replicas shard \<noteq> [] \<and> distinct (replicas shard) \<and>
      (\<exists>kvs dd. datum = R_OBJECT kvs \<and> map_of kvs ''director'' = Some dd \<and>
         (if dd = R_NULL then director shard = nil_uuid
          else director shard \<in> set (replicas shard)))"
    if ok: "convert_table_config_shard_from_datum A datum = Inr shard"
    using shard_from_datum_accepted [OF ok] by blast
  have dup: "convert_table_config_shard_from_datum A (R_OBJECT kvs) =
        Inl ''In `replicas`: A server is listed more than once.''"
    if h: "map_of kvs ''replicas'' = Some (R_ARRAY elems) \<and>
      map (convert_server_id_from_datum A) elems = map Inr ids \<and> \<not> distinct ids"
  proof -
    from h have "replicas_from_datum A elems [] =
        Inl ''In `replicas`: A server is listed more than once.''"
      using replicas_from_datum_dup [of A elems ids "[]"] by simp
    with h show ?thesis
      by (simp add: convert_table_config_shard_from_datum_def converter_init_def
          converter_get_def)
  qed
  have empty: "convert_table_config_shard_from_datum A (R_OBJECT kvs) =
        Inl ''You must specify at least one replica for each shard.''"
    if "map_of kvs ''replicas'' = Some (R_ARRAY [])"
    using that
    by (simp add: convert_table_config_shard_from_datum_def converter_init_def
        converter_get_def)
  have outside: "convert_table_config_shard_from_datum A (R_OBJECT kvs) =
        Inl ''The director must be one of the replicas.''"
    if h: "map_of kvs ''replicas'' = Some (R_ARRAY elems) \<and>
      map (convert_server_id_from_datum A) elems = map Inr ids \<and> distinct ids \<and> ids \<noteq> [] \<and>
      map_of kvs ''director'' = Some dd \<and> dd \<noteq> R_NULL \<and>
      convert_server_id_from_datum A dd = Inr dir \<and> dir \<notin> set ids"
  proof -
    from h obtain rs where rs: "replicas_from_datum A elems [] = Inr rs" "set rs = set ids"
      using replicas_from_datum_ok [of A elems ids "[]"] by auto
    with h have "rs \<noteq> []" by auto
    with h rs show ?thesis
      by (simp add: convert_table_config_shard_from_datum_def converter_init_def
          converter_get_def std_set_count_def)
  qed
  from inv dup empty outside show ?thesis by blast
qed

theorem shard_from_datum_invariants_witness:
  "convert_table_config_shard_from_datum ex_adapter (ex_shard_datum [''b'', ''a''] (R_STR ''a'')) =
     Inr \<lparr>replicas = [1, 2], director = 1\<rparr> \<and>
   convert_table_config_shard_from_datum ex_adapter (ex_shard_datum [''b'', ''a''] R_NULL) =
     Inr \<lparr>replicas = [1, 2], director = nil_uuid\<rparr> \<and>
   convert_table_config_shard_from_datum ex_adapter (ex_shard_datum [''a'', ''b'', ''a''] (R_STR ''a'')) =
     Inl ''In `replicas`: A server is listed more than once.'' \<and>
   convert_table_config_shard_from_datum ex_adapter (ex_shard_datum [] (R_STR ''a'')) =
     Inl ''You must specify at least one replica for each shard.'' \<and>
   convert_table_config_shard_from_datum ex_adapter (ex_shard_datum [''a'', ''b''] (R_STR ''c'')) =
     Inl ''The director must be one of the replicas.''"
proof -
  have accepted:
    "convert_table_config_shard_from_datum ex_adapter (ex_shard_datum [''b'', ''a''] (R_STR ''a'')) =
       Inr \<lparr>replicas = [1, 2], director = 1\<rparr>"
    by (simp add: convert_table_config_shard_from_datum_def converter_init_def converter_get_def
        check_no_extra_keys_def std_set_insert_def std_set_count_def ex_adapter_def
        ex_server_id_from_datum_def ex_shard_datum_def)
  have null_director:
    "convert_table_config_shard_from_datum ex_adapter (ex_shard_datum [''b'', ''a''] R_NULL) =
       Inr \<lparr>replicas = [1, 2], director = nil_uuid\<rparr>"
    by (simp add: convert_table_config_shard_from_datum_def converter_init_def converter_get_def
        check_no_extra_keys_def std_set_insert_def std_set_count_def ex_adapter_def
        ex_server_id_from_datum_def ex_shard_datum_def)
  note inv = shard_from_datum_invariants
    [of ex_adapter "ex_shard_datum [''b'', ''a''] (R_STR ''a'')"
       "\<lparr>replicas = [1, 2], director = 1\<rparr>"]
  note dup = shard_from_datum_invariants
    [of ex_adapter _ _ "[(''replicas'', R_ARRAY (map R_STR [''a'', ''b'', ''a''])), (''director'', R_STR ''a'')]"
       "map R_STR [''a'', ''b'', ''a'']" "[1, 2, 1]"]
  note empty = shard_from_datum_invariants
    [of ex_adapter _ _ "[(''replicas'', R_ARRAY (map R_STR [])), (''director'', R_STR ''a'')]"]
  note outside = shard_from_datum_invariants
    [of ex_adapter _ _ "[(''replicas'', R_ARRAY (map R_STR [''a'', ''b''])), (''director'', R_STR ''c'')]"
       "map R_STR [''a'', ''b'']" "[1, 2]" "R_STR ''c''" 3]
  from accepted null_director inv dup empty outside show ?thesis
    by (simp add: ex_adapter_def ex_server_id_from_datum_def ex_shard_datum_def)
qed

lemma ex_adapter_removed_to [simp]:
  "convert_server_id_to_datum ex_adapter_removed s =
     (if s = 1 then None else ex_server_id_to_datum s)"
  by (simp add: ex_adapter_removed_def ex_adapter_def)

lemma ex_adapter_removed_from [simp]:
  "convert_server_id_from_datum ex_adapter_removed d =
     (if d = R_STR ''a'' then Inl ''No such server.'' else ex_server_id_from_datum d)"
  by (simp add: ex_adapter_removed_def ex_adapter_def)

lemma ex_adapter_to [simp]: "convert_server_id_to_datum ex_adapter = ex_server_id_to_datum"
  by (simp add: ex_adapter_def)

lemma ex_adapter_from [simp]: "convert_server_id_from_datum ex_adapter = ex_server_id_from_datum"
  by (simp add: ex_adapter_def)

lemma replicas_to_datum_filter:
  "replicas_to_datum A rs builder =
     builder @ map (\<lambda>r. the (convert_server_id_to_datum A r))
                 (filter (\<lambda>r. convert_server_id_to_datum A r \<noteq> None) rs)"
  by (induction rs arbitrary: builder) (auto split: option.splits)

lemma shard_to_datum_eq:
  "convert_table_config_shard_to_datum A shard =
     R_OBJECT
       [(''replicas'',
         R_ARRAY (map (\<lambda>r. the (convert_server_id_to_datum A r))
                    (filter (\<lambda>r. convert_server_id_to_datum A r \<noteq> None) (replicas shard)))),
        (''director'',
         (case convert_server_id_to_datum A (director shard) of
            None \<Rightarrow> R_NULL
          | Some d \<Rightarrow> d))]"
  by (simp add: convert_table_config_shard_to_datum_def replicas_to_datum_filter)

text \<open>
  C6. The shard encoder has no error path: for every shard it returns the object
  whose \<open>replicas\<close> are the display forms of exactly the replicas that resolve, in
  the order of the set (a replica that does not resolve is left out), and whose
  \<open>director\<close> is the display form of the director if it resolves and null if not.
\<close>

theorem shard_to_datum_total:
  "convert_table_config_shard_to_datum A shard =
     R_OBJECT
       [(''replicas'',
         R_ARRAY (map (\<lambda>r. the (convert_server_id_to_datum A r))
                    (filter (resolves A) (replicas shard)))),
        (''director'',
         (if resolves A (director shard) then the (convert_server_id_to_datum A (director shard))
          else R_NULL))]"
  by (auto simp add: shard_to_datum_eq resolves_def [abs_def])

theorem shard_to_datum_total_witness:
  "convert_table_config_shard_to_datum ex_adapter_removed \<lparr>replicas = [1, 2, 3], director = 1\<rparr> =
     R_OBJECT [(''replicas'', R_ARRAY [R_STR ''b'', R_STR ''c'']), (''director'', R_NULL)]"
  by (subst shard_to_datum_total) (simp add: resolves_def ex_server_id_to_datum_def)

lemma replicas_from_datum_sorted_ids:
  assumes "\<forall>r \<in> set rs. \<exists>y. convert_server_id_to_datum A r = Some y \<and>
              convert_server_id_from_datum A y = Inr r"
    and "sorted rs" and "distinct rs"
  shows "replicas_from_datum A (map (\<lambda>r. the (convert_server_id_to_datum A r)) rs) [] = Inr rs"
proof -
  have m: "map (convert_server_id_from_datum A) (map (\<lambda>r. the (convert_server_id_to_datum A r)) rs)
      = map Inr rs"
    using assms(1) by (induction rs) auto
  from replicas_from_datum_ok [OF m, of "[]"] assms(3) obtain out where
    out: "replicas_from_datum A (map (\<lambda>r. the (convert_server_id_to_datum A r)) rs) [] = Inr out"
    and s: "set out = set rs" by auto
  from replicas_from_datum_inv [OF out] have "distinct out" "sorted out" by simp_all
  with s assms(2,3) have "out = rs"
    by (metis sorted_distinct_set_unique)
  with out show ?thesis by simp
qed


lemma shard_from_datum_of_to_datum:
  assumes dec: "convert_table_config_shard_from_datum A datum = Inr shard"
    and coh: "\<forall>sid y. convert_server_id_to_datum A' sid = Some y \<longrightarrow>
                y \<noteq> R_NULL \<and> convert_server_id_from_datum A' y = Inr sid"
    and nil: "convert_server_id_to_datum A' nil_uuid = None"
  shows "convert_table_config_shard_from_datum A'
           (convert_table_config_shard_to_datum A' shard) =
         (if filter (resolves A') (replicas shard) = []
          then Inl ''You must specify at least one replica for each shard.''
          else Inr \<lparr>replicas = filter (resolves A') (replicas shard),
                    director = (if resolves A' (director shard) then director shard
                                else nil_uuid)\<rparr>)"
proof -
  let ?kept = "filter (resolves A') (replicas shard)"
  let ?to = "\<lambda>r. the (convert_server_id_to_datum A' r)"
  from shard_from_datum_accepted [OF dec]
  have ne: "replicas shard \<noteq> []" and di: "distinct (replicas shard)"
    and so: "sorted (replicas shard)"
    and dir: "director shard = nil_uuid \<or> director shard \<in> set (replicas shard)"
    by (auto split: if_splits)
  have k: "\<forall>r \<in> set ?kept. \<exists>y. convert_server_id_to_datum A' r = Some y \<and>
              convert_server_id_from_datum A' y = Inr r"
    using coh by (auto simp: resolves_def)
  have rs: "replicas_from_datum A' (map ?to ?kept) [] = Inr ?kept"
    using replicas_from_datum_sorted_ids [OF k] so di by (simp add: sorted_wrt_filter)
  have enc: "convert_table_config_shard_to_datum A' shard =
      R_OBJECT [(''replicas'', R_ARRAY (map ?to ?kept)),
        (''director'', (case convert_server_id_to_datum A' (director shard) of
            None \<Rightarrow> R_NULL | Some d \<Rightarrow> d))]"
    by (simp add: shard_to_datum_eq resolves_def [abs_def])
  show ?thesis
  proof (cases "convert_server_id_to_datum A' (director shard)")
    case None
    with enc rs show ?thesis
      by (simp add: convert_table_config_shard_from_datum_def converter_init_def converter_get_def
        check_no_extra_keys_def resolves_def)
  next
    case (Some y)
    with coh have y: "y \<noteq> R_NULL" "convert_server_id_from_datum A' y = Inr (director shard)"
      by auto
    from Some nil have "director shard \<noteq> nil_uuid" by auto
    with dir Some have "director shard \<in> set ?kept" by (auto simp: resolves_def)
    with enc rs Some y show ?thesis
      by (auto simp add: convert_table_config_shard_from_datum_def converter_init_def converter_get_def
        check_no_extra_keys_def resolves_def std_set_count_def)
  qed
qed


lemma replicas_from_datum_denoted:
  "replicas_from_datum A elems acc = Inr rs \<Longrightarrow>
   set rs = set acc \<union> denoted_servers A elems"
proof (induction elems arbitrary: acc)
  case Nil
  then show ?case by (simp add: denoted_servers_def)
next
  case (Cons d ds)
  from Cons.prems(1) obtain sid where sid: "convert_server_id_from_datum A d = Inr sid"
    by (auto split: sum.splits)
  obtain acc' b where ins: "std_set_insert sid acc = (acc', b)"
    by (cases "std_set_insert sid acc")
  from Cons.prems(1) sid ins have b: "b" and rest: "replicas_from_datum A ds acc' = Inr rs"
    by (auto split: if_splits)
  from Cons.IH [OF rest] std_set_insert_set [OF ins] sid show ?case
    by (auto simp: denoted_servers_def)
qed

lemma shard_from_datum_fields:
  assumes ok: "convert_table_config_shard_from_datum A datum = Inr shard"
  shows "\<exists>kvs elems dd.
      datum = R_OBJECT kvs \<and> map_of kvs ''replicas'' = Some (R_ARRAY elems) \<and>
      map_of kvs ''director'' = Some dd \<and>
      set (replicas shard) = denoted_servers A elems \<and>
      (if dd = R_NULL then director shard = nil_uuid
       else convert_server_id_from_datum A dd = Inr (director shard))"
proof -
  from ok obtain fs where obj: "datum = R_OBJECT fs"
    by (cases datum) (auto simp: convert_table_config_shard_from_datum_def converter_init_def)
  from ok obj obtain rd where rd: "map_of fs ''replicas'' = Some rd"
    by (auto simp: convert_table_config_shard_from_datum_def converter_init_def
        converter_get_def split: option.splits)
  from ok obj rd obtain es where arr: "rd = R_ARRAY es"
    by (cases rd) (auto simp: convert_table_config_shard_from_datum_def converter_init_def
        converter_get_def)
  from ok obj rd arr obtain rs where rs: "replicas_from_datum A es [] = Inr rs"
    by (auto simp: convert_table_config_shard_from_datum_def converter_init_def
        converter_get_def split: sum.splits)
  from ok obj rd arr rs have ne: "rs \<noteq> []"
    by (auto simp: convert_table_config_shard_from_datum_def converter_init_def
        converter_get_def split: if_splits)
  from ok obj rd arr rs ne obtain dv where dv: "map_of fs ''director'' = Some dv"
    by (auto simp: convert_table_config_shard_from_datum_def converter_init_def
        converter_get_def split: option.splits)
  from ok obj rd arr rs ne dv have sh: "replicas shard = rs"
    and dir: "if dv = R_NULL then director shard = nil_uuid
              else convert_server_id_from_datum A dv = Inr (director shard)"
    by (auto simp: convert_table_config_shard_from_datum_def converter_init_def
        converter_get_def check_no_extra_keys_def std_set_count_def
        split: if_splits sum.splits)
  from replicas_from_datum_denoted [OF rs] sh
  have "set (replicas shard) = denoted_servers A es" by simp
  with obj rd arr dv dir show ?thesis by blast
qed

lemma denoted_servers_displayed:
  assumes "\<forall>sid y. convert_server_id_to_datum A sid = Some y \<longrightarrow>
             y \<noteq> R_NULL \<and> convert_server_id_from_datum A y = Inr sid"
  shows "denoted_servers A
           (map (\<lambda>r. the (convert_server_id_to_datum A r)) (filter (resolves A) rs)) =
         {sid \<in> set rs. resolves A sid}"
  using assms by (induction rs) (auto simp: denoted_servers_def resolves_def)

text \<open>
  C2 (amended). Let the decoder accept a document \<open>d\<close>, and let the encoder encode the
  decoded shard with a resolver that reads back what it displays and does not know
  the nil identifier. The output has the fields \<open>replicas\<close> and \<open>director\<close>, as
  \<open>d\<close> has, and is equivalent to \<open>d\<close> in what it denotes: its replicas, none listed
  twice, denote the servers that the replicas of \<open>d\<close> denote, but for those that no
  longer resolve, which are absent; its director is null where the director of \<open>d\<close>
  is null or denotes a server that no longer resolves, and denotes the server that the
  director of \<open>d\<close> denotes otherwise.
\<close>

theorem shard_roundtrip:
  assumes dec: "convert_table_config_shard_from_datum A datum = Inr shard"
    and coh: "\<forall>sid y. convert_server_id_to_datum A' sid = Some y \<longrightarrow>
                y \<noteq> R_NULL \<and> convert_server_id_from_datum A' y = Inr sid"
    and nil: "convert_server_id_to_datum A' nil_uuid = None"
  shows "\<exists>kvs elems dd outs dout.
      datum = R_OBJECT kvs \<and> map_of kvs ''replicas'' = Some (R_ARRAY elems) \<and>
      map_of kvs ''director'' = Some dd \<and>
      convert_table_config_shard_to_datum A' shard =
        R_OBJECT [(''replicas'', R_ARRAY outs), (''director'', dout)] \<and>
      distinct outs \<and>
      (\<forall>y \<in> set outs. \<exists>sid. convert_server_id_from_datum A' y = Inr sid) \<and>
      denoted_servers A' outs = {sid \<in> denoted_servers A elems. resolves A' sid} \<and>
      (if dd = R_NULL then dout = R_NULL
       else \<exists>dir. convert_server_id_from_datum A dd = Inr dir \<and>
              (if resolves A' dir
               then dout \<noteq> R_NULL \<and> convert_server_id_from_datum A' dout = Inr dir
               else dout = R_NULL))"
proof -
  let ?to = "\<lambda>r. the (convert_server_id_to_datum A' r)"
  let ?outs = "map ?to (filter (resolves A') (replicas shard))"
  let ?dout = "case convert_server_id_to_datum A' (director shard) of
                 None \<Rightarrow> R_NULL | Some d \<Rightarrow> d"
  from shard_from_datum_fields [OF dec] obtain kvs elems dd where
    obj: "datum = R_OBJECT kvs" and rep: "map_of kvs ''replicas'' = Some (R_ARRAY elems)" and
    dir: "map_of kvs ''director'' = Some dd" and
    den: "set (replicas shard) = denoted_servers A elems" and
    dd: "if dd = R_NULL then director shard = nil_uuid
         else convert_server_id_from_datum A dd = Inr (director shard)"
    by blast
  from shard_from_datum_accepted [OF dec] have di: "distinct (replicas shard)" by simp
  have enc: "convert_table_config_shard_to_datum A' shard =
      R_OBJECT [(''replicas'', R_ARRAY ?outs), (''director'', ?dout)]"
    by (simp add: shard_to_datum_eq resolves_def [abs_def])
  have inj: "inj_on ?to (set (filter (resolves A') (replicas shard)))"
  proof (rule inj_onI)
    fix x y
    assume x: "x \<in> set (filter (resolves A') (replicas shard))"
      and y: "y \<in> set (filter (resolves A') (replicas shard))" and eq: "?to x = ?to y"
    from x y obtain dx dy where
      "convert_server_id_to_datum A' x = Some dx" "convert_server_id_to_datum A' y = Some dy"
      by (auto simp: resolves_def)
    with coh eq show "x = y" by (metis Inr_inject option.sel)
  qed
  from di inj have d_outs: "distinct ?outs" by (simp add: distinct_map)
  have res: "\<forall>y \<in> set ?outs. \<exists>sid. convert_server_id_from_datum A' y = Inr sid"
    using coh by (auto simp: resolves_def)
  have same: "denoted_servers A' ?outs = {sid \<in> denoted_servers A elems. resolves A' sid}"
    using denoted_servers_displayed [OF coh, of "replicas shard"] den by simp
  have dout: "if dd = R_NULL then ?dout = R_NULL
       else \<exists>dir. convert_server_id_from_datum A dd = Inr dir \<and>
              (if resolves A' dir
               then ?dout \<noteq> R_NULL \<and> convert_server_id_from_datum A' ?dout = Inr dir
               else ?dout = R_NULL)"
    using dd nil coh by (auto simp: resolves_def split: option.splits)
  from obj rep dir enc d_outs res same dout show ?thesis by blast
qed

theorem shard_roundtrip_witness:
  "convert_table_config_shard_from_datum ex_adapter (ex_shard_datum [''b'', ''a'', ''c''] (R_STR ''c'')) =
     Inr \<lparr>replicas = [1, 2, 3], director = 3\<rparr> \<and>
   convert_table_config_shard_to_datum ex_adapter_removed \<lparr>replicas = [1, 2, 3], director = 3\<rparr> =
     ex_shard_datum [''b'', ''c''] (R_STR ''c'') \<and>
   (\<exists>kvs elems dd outs dout.
      ex_shard_datum [''b'', ''a'', ''c''] (R_STR ''c'') = R_OBJECT kvs \<and>
      map_of kvs ''replicas'' = Some (R_ARRAY elems) \<and>
      map_of kvs ''director'' = Some dd \<and>
      convert_table_config_shard_to_datum ex_adapter_removed \<lparr>replicas = [1, 2, 3], director = 3\<rparr> =
        R_OBJECT [(''replicas'', R_ARRAY outs), (''director'', dout)] \<and>
      distinct outs \<and>
      (\<forall>y \<in> set outs. \<exists>sid. convert_server_id_from_datum ex_adapter_removed y = Inr sid) \<and>
      denoted_servers ex_adapter_removed outs =
        {sid \<in> denoted_servers ex_adapter elems. resolves ex_adapter_removed sid} \<and>
      (if dd = R_NULL then dout = R_NULL
       else \<exists>dir. convert_server_id_from_datum ex_adapter dd = Inr dir \<and>
              (if resolves ex_adapter_removed dir
               then dout \<noteq> R_NULL \<and> convert_server_id_from_datum ex_adapter_removed dout = Inr dir
               else dout = R_NULL)))"
proof -
  have dec: "convert_table_config_shard_from_datum ex_adapter
      (ex_shard_datum [''b'', ''a'', ''c''] (R_STR ''c'')) =
       Inr \<lparr>replicas = [1, 2, 3], director = 3\<rparr>"
    by (simp add: convert_table_config_shard_from_datum_def converter_init_def converter_get_def
        check_no_extra_keys_def std_set_insert_def std_set_count_def
        ex_server_id_from_datum_def ex_shard_datum_def)
  have enc: "convert_table_config_shard_to_datum ex_adapter_removed
      \<lparr>replicas = [1, 2, 3], director = 3\<rparr> = ex_shard_datum [''b'', ''c''] (R_STR ''c'')"
    by (simp add: convert_table_config_shard_to_datum_def ex_server_id_to_datum_def
        ex_shard_datum_def)
  have coh: "\<forall>sid y. convert_server_id_to_datum ex_adapter_removed sid = Some y \<longrightarrow>
                y \<noteq> R_NULL \<and> convert_server_id_from_datum ex_adapter_removed y = Inr sid"
    by (auto simp: ex_server_id_to_datum_def ex_server_id_from_datum_def split: if_splits)
  have nil: "convert_server_id_to_datum ex_adapter_removed nil_uuid = None"
    by (simp add: nil_uuid_def ex_server_id_to_datum_def)
  from dec enc shard_roundtrip [OF dec coh nil] show ?thesis
    by (intro conjI)
qed

text \<open>
  As C2 is stated, only a director that decoded to the nil identifier re-encodes as
  null. Here the document names the director \<open>a\<close>, which decodes to the server 1 and
  not to the nil identifier; once that server has been removed, the encoder displays
  the director as null.
\<close>

theorem shard_roundtrip_counterexample:
  "convert_table_config_shard_from_datum ex_adapter (ex_shard_datum [''a'', ''b''] (R_STR ''a'')) =
     Inr \<lparr>replicas = [1, 2], director = 1\<rparr> \<and>
   (1 :: server_id_t) \<noteq> nil_uuid \<and>
   convert_table_config_shard_to_datum ex_adapter_removed \<lparr>replicas = [1, 2], director = 1\<rparr> =
     ex_shard_datum [''b''] R_NULL"
  by (simp add: convert_table_config_shard_from_datum_def converter_init_def converter_get_def
        check_no_extra_keys_def std_set_insert_def std_set_count_def convert_table_config_shard_to_datum_def
        ex_server_id_from_datum_def ex_server_id_to_datum_def ex_shard_datum_def nil_uuid_def)

section \<open>The decoder of a table's row\<close>

lemma server_usage_of_live:
  "server_usage_of C m usage =
     fold (calculate_server_usage C)
       (map (\<lambda>e. config (get_ref (replication_info e)))
          (concat (map (\<lambda>(k, entry). case entry of Live e \<Rightarrow> [e] | Deleted \<Rightarrow> []) m)))
       usage"
  by (induction m arbitrary: usage) (auto split: deletable_t.splits)

lemma table_row_from_datum_prefix:
  assumes "map_of kvs ''name'' = Some name_datum"
    and "convert_name_from_datum A name_datum ''table name'' = Inr table_name"
    and "map_of kvs ''db'' = Some db"
    and "map_of kvs ''id'' = Some id_datum"
    and "convert_uuid_from_datum A id_datum = Inr table_id"
  shows "convert_table_config_and_name_from_datum A C (R_OBJECT kvs) existed_before md =
     (case primary_key_from_datum A existed_before
             \<lparr>conv_fields = kvs,
              extra_keys = removeAll ''id'' (removeAll ''db'' (removeAll ''name'' (map fst kvs)))\<rparr> of
        Inl e \<Rightarrow> Inl e
      | Inr (pk, converter4) \<Rightarrow>
     (case shards_from_datum A C existed_before md converter4 of
        Inl e \<Rightarrow> Inl e
      | Inr (cfg, converter5) \<Rightarrow>
     (case check_no_extra_keys A converter5 of
        Inl e \<Rightarrow> Inl e
      | Inr _ \<Rightarrow>
          Inr \<lparr>table_name_out = table_name, db_out = db, id_out = table_id,
               config_out = cfg, primary_key_out = pk\<rparr>)))"
  using assms
  by (simp add: convert_table_config_and_name_from_datum_def converter_init_def converter_get_def)

lemma conv_fields_after_id [simp]: "conv_fields (converter_after_id kvs) = kvs"
  by (simp add: converter_after_id_def)

lemma table_row_from_datum_accepted:
  assumes ok: "convert_table_config_and_name_from_datum A C datum existed_before md = Inr row"
  shows "\<exists>kvs converter4 converter5.
      datum = R_OBJECT kvs \<and>
      primary_key_from_datum A existed_before (converter_after_id kvs) =
        Inr (primary_key_out row, converter4) \<and>
      shards_from_datum A C existed_before md converter4 = Inr (config_out row, converter5)"
proof -
  from ok obtain kvs where obj: "datum = R_OBJECT kvs"
    by (cases datum) (auto simp: convert_table_config_and_name_from_datum_def converter_init_def)
  from ok obj show ?thesis
    by (auto simp: convert_table_config_and_name_from_datum_def converter_init_def converter_get_def
        converter_after_id_def
        split: sum.splits option.splits prod.splits)
qed

lemma primary_key_from_datum_ok:
  assumes "primary_key_from_datum A existed_before c = Inr (pk, c')"
  shows "conv_fields c' = conv_fields c \<and>
    (if existed_before \<or> map_of (conv_fields c) ''primary_key'' \<noteq> None
     then \<exists>v. map_of (conv_fields c) ''primary_key'' = Some v \<and>
            convert_string_from_datum A v = Inr pk
     else pk = ''id'')"
  using assms
  by (auto simp: primary_key_from_datum_def converter_has_def converter_get_def
      split: if_splits option.splits sum.splits)

text \<open>
  C8. A document that the table decoder accepts is an object; when the table did not
  exist before and the document has no \<open>primary_key\<close>, the decoded primary key is the
  string \<open>id\<close>; when the table existed before, or the field is supplied, the decoded
  primary key is the string that the field converts to. Once \<open>name\<close>, \<open>db\<close> and
  \<open>id\<close> have been read, a document for an existing table without the field is
  rejected for the missing field, and a field that does not convert to a string is
  rejected with the converter's message under \<open>In `primary_key`:\<close>.
\<close>

theorem primary_key_default:
  "(convert_table_config_and_name_from_datum A C datum existed_before md = Inr row \<longrightarrow>
      (\<exists>kvs. datum = R_OBJECT kvs \<and>
         (if existed_before \<or> map_of kvs ''primary_key'' \<noteq> None
          then \<exists>v. map_of kvs ''primary_key'' = Some v \<and>
                 convert_string_from_datum A v = Inr (primary_key_out row)
          else primary_key_out row = ''id''))) \<and>
   (map_of kvs ''name'' = Some name_datum \<and>
    convert_name_from_datum A name_datum ''table name'' = Inr table_name \<and>
    map_of kvs ''db'' = Some db \<and> map_of kvs ''id'' = Some id_datum \<and>
    convert_uuid_from_datum A id_datum = Inr table_id \<longrightarrow>
      (map_of kvs ''primary_key'' = None \<longrightarrow>
         convert_table_config_and_name_from_datum A C (R_OBJECT kvs) True md =
           Inl (missing_field_error A ''primary_key'')) \<and>
      (map_of kvs ''primary_key'' = Some v \<and> convert_string_from_datum A v = Inl e \<longrightarrow>
         convert_table_config_and_name_from_datum A C (R_OBJECT kvs) existed_before md =
           Inl (''In `primary_key`: '' @ e)))"
proof -
  have accepted: "\<exists>kvs. datum = R_OBJECT kvs \<and>
         (if existed_before \<or> map_of kvs ''primary_key'' \<noteq> None
          then \<exists>v. map_of kvs ''primary_key'' = Some v \<and>
                 convert_string_from_datum A v = Inr (primary_key_out row)
          else primary_key_out row = ''id'')"
    if ok: "convert_table_config_and_name_from_datum A C datum existed_before md = Inr row"
  proof -
    from table_row_from_datum_accepted [OF ok] obtain fs c4 where
      obj: "datum = R_OBJECT fs" and
      pk: "primary_key_from_datum A existed_before (converter_after_id fs) =
             Inr (primary_key_out row, c4)"
      by blast
    from primary_key_from_datum_ok [OF pk] obj show ?thesis
      by (auto split: if_splits)
  qed
  have missing: "convert_table_config_and_name_from_datum A C (R_OBJECT kvs) True md =
           Inl (missing_field_error A ''primary_key'')"
    if "map_of kvs ''name'' = Some name_datum"
      "convert_name_from_datum A name_datum ''table name'' = Inr table_name"
      "map_of kvs ''db'' = Some db" "map_of kvs ''id'' = Some id_datum"
      "convert_uuid_from_datum A id_datum = Inr table_id"
      "map_of kvs ''primary_key'' = None"
    using that
    by (simp add: table_row_from_datum_prefix primary_key_from_datum_def converter_get_def)
  have not_string: "convert_table_config_and_name_from_datum A C (R_OBJECT kvs) existed_before md =
           Inl (''In `primary_key`: '' @ e)"
    if "map_of kvs ''name'' = Some name_datum"
      "convert_name_from_datum A name_datum ''table name'' = Inr table_name"
      "map_of kvs ''db'' = Some db" "map_of kvs ''id'' = Some id_datum"
      "convert_uuid_from_datum A id_datum = Inr table_id"
      "map_of kvs ''primary_key'' = Some v" "convert_string_from_datum A v = Inl e"
    using that
    by (simp add: table_row_from_datum_prefix primary_key_from_datum_def converter_get_def
        converter_has_def)
  from accepted missing not_string show ?thesis by blast
qed


lemma shards_from_datum_generator:
  assumes "existed_before \<or> map_of (conv_fields c) ''shards'' \<noteq> None"
  shows "shards_from_datum A (C\<lparr>table_generate_config := g, calculate_server_usage := u\<rparr>)
           existed_before md c =
         shards_from_datum A C existed_before md c"
  using assms by (auto simp: shards_from_datum_def converter_has_def)

lemma primary_key_from_datum_fields:
  "primary_key_from_datum A existed_before c = Inr (pk, c') \<Longrightarrow> conv_fields c' = conv_fields c"
  by (auto simp: primary_key_from_datum_def converter_get_def
      split: if_splits option.splits sum.splits)

lemma table_row_from_datum_generator:
  assumes "existed_before \<or> (\<exists>kvs sd. datum = R_OBJECT kvs \<and> map_of kvs ''shards'' = Some sd)"
  shows "convert_table_config_and_name_from_datum A
           (C\<lparr>table_generate_config := g, calculate_server_usage := u\<rparr>) datum existed_before md =
         convert_table_config_and_name_from_datum A C datum existed_before md"
proof (cases datum)
  case (R_OBJECT kvs)
  have "shards_from_datum A (C\<lparr>table_generate_config := g, calculate_server_usage := u\<rparr>)
           existed_before md c4 =
         shards_from_datum A C existed_before md c4"
    if "primary_key_from_datum A existed_before
          \<lparr>conv_fields = kvs, extra_keys = ks\<rparr> = Inr (pk, c4)" for pk c4 ks
    using assms R_OBJECT primary_key_from_datum_fields [OF that]
    by (intro shards_from_datum_generator) auto
  then show ?thesis
    using R_OBJECT
    by (auto simp: convert_table_config_and_name_from_datum_def converter_init_def converter_get_def
        split: sum.splits option.splits prod.splits)
qed (simp_all add: convert_table_config_and_name_from_datum_def converter_init_def)

lemma check_no_extra_keys_after:
  "check_no_extra_keys A (c\<lparr>extra_keys := ks\<rparr>) =
     (if ks = [] then Inr () else Inl (extra_keys_error A ks))"
  by (simp add: check_no_extra_keys_def)

text \<open>
  C10. Once \<open>name\<close>, \<open>db\<close>, \<open>id\<close> and the primary key have been read, a document
  without \<open>shards\<close> is rejected for the missing field when the table existed before;
  when it did not, the result is that of the generator of the default configuration,
  called with the usage of the servers counted over the tables that are not deleted
  (its failure under \<open>When generating configuration for new table:\<close>). When the table
  existed before, or the document has \<open>shards\<close>, the result does not depend on the
  generator nor on the count of the usage: they are not called.
\<close>

theorem shards_required_for_update:
  "(map_of kvs ''name'' = Some name_datum \<and>
    convert_name_from_datum A name_datum ''table name'' = Inr table_name \<and>
    map_of kvs ''db'' = Some db \<and> map_of kvs ''id'' = Some id_datum \<and>
    convert_uuid_from_datum A id_datum = Inr table_id \<and>
    map_of kvs ''shards'' = None \<longrightarrow>
      (map_of kvs ''primary_key'' = Some v \<and> convert_string_from_datum A v = Inr pk \<longrightarrow>
         convert_table_config_and_name_from_datum A C (R_OBJECT kvs) True md =
           Inl (missing_field_error A ''shards'')) \<and>
      ((map_of kvs ''primary_key'' = None \<and> pk = ''id'') \<or>
       (map_of kvs ''primary_key'' = Some v \<and> convert_string_from_datum A v = Inr pk) \<longrightarrow>
         convert_table_config_and_name_from_datum A C (R_OBJECT kvs) False md =
           (case table_generate_config C nil_uuid
                   (fold (calculate_server_usage C)
                      (map (\<lambda>e. config (get_ref (replication_info e)))
                         (concat (map (\<lambda>(k, entry). case entry of Live e \<Rightarrow> [e] | Deleted \<Rightarrow> [])
                                    (namespaces md))))
                      [])
                   default_shard_scheme of
              Inl e \<Rightarrow> Inl (''When generating configuration for new table: '' @ e)
            | Inr cfg \<Rightarrow>
                if unknown_keys kvs = []
                then Inr \<lparr>table_name_out = table_name, db_out = db, id_out = table_id,
                          config_out = cfg, primary_key_out = pk\<rparr>
                else Inl (extra_keys_error A (unknown_keys kvs))))) \<and>
   (existed_before \<or> (\<exists>fs sd. datum = R_OBJECT fs \<and> map_of fs ''shards'' = Some sd) \<longrightarrow>
      convert_table_config_and_name_from_datum A
        (C\<lparr>table_generate_config := g, calculate_server_usage := u\<rparr>) datum existed_before md =
      convert_table_config_and_name_from_datum A C datum existed_before md)"
proof (intro conjI)
  have ks: "removeAll ''primary_key''
      (removeAll ''id'' (removeAll ''db'' (removeAll ''name'' (map fst kvs)))) = unknown_keys kvs"
    by (induction kvs) (auto simp: unknown_keys_def)
  have ks': "map_of kvs ''primary_key'' = None \<Longrightarrow>
      removeAll ''id'' (removeAll ''db'' (removeAll ''name'' (map fst kvs))) = unknown_keys kvs"
    by (induction kvs) (auto simp: unknown_keys_def split: if_splits)
  let ?generated = "case table_generate_config C nil_uuid
                   (fold (calculate_server_usage C)
                      (map (\<lambda>e. config (get_ref (replication_info e)))
                         (concat (map (\<lambda>(k, entry). case entry of Live e \<Rightarrow> [e] | Deleted \<Rightarrow> [])
                                    (namespaces md))))
                      [])
                   default_shard_scheme of
              Inl e \<Rightarrow> Inl (''When generating configuration for new table: '' @ e)
            | Inr cfg \<Rightarrow>
                if unknown_keys kvs = []
                then Inr \<lparr>table_name_out = table_name, db_out = db, id_out = table_id,
                          config_out = cfg, primary_key_out = pk\<rparr>
                else Inl (extra_keys_error A (unknown_keys kvs))"
  show "map_of kvs ''name'' = Some name_datum \<and>
    convert_name_from_datum A name_datum ''table name'' = Inr table_name \<and>
    map_of kvs ''db'' = Some db \<and> map_of kvs ''id'' = Some id_datum \<and>
    convert_uuid_from_datum A id_datum = Inr table_id \<and>
    map_of kvs ''shards'' = None \<longrightarrow>
      (map_of kvs ''primary_key'' = Some v \<and> convert_string_from_datum A v = Inr pk \<longrightarrow>
         convert_table_config_and_name_from_datum A C (R_OBJECT kvs) True md =
           Inl (missing_field_error A ''shards'')) \<and>
      ((map_of kvs ''primary_key'' = None \<and> pk = ''id'') \<or>
       (map_of kvs ''primary_key'' = Some v \<and> convert_string_from_datum A v = Inr pk) \<longrightarrow>
         convert_table_config_and_name_from_datum A C (R_OBJECT kvs) False md = ?generated)"
  proof (intro impI conjI)
    assume p: "map_of kvs ''name'' = Some name_datum \<and>
      convert_name_from_datum A name_datum ''table name'' = Inr table_name \<and>
      map_of kvs ''db'' = Some db \<and> map_of kvs ''id'' = Some id_datum \<and>
      convert_uuid_from_datum A id_datum = Inr table_id \<and>
      map_of kvs ''shards'' = None"
    then have pre: "convert_table_config_and_name_from_datum A C (R_OBJECT kvs) eb md =
     (case primary_key_from_datum A eb
             \<lparr>conv_fields = kvs,
              extra_keys = removeAll ''id'' (removeAll ''db'' (removeAll ''name'' (map fst kvs)))\<rparr> of
        Inl e \<Rightarrow> Inl e
      | Inr (pk, converter4) \<Rightarrow>
     (case shards_from_datum A C eb md converter4 of
        Inl e \<Rightarrow> Inl e
      | Inr (cfg, converter5) \<Rightarrow>
     (case check_no_extra_keys A converter5 of
        Inl e \<Rightarrow> Inl e
      | Inr _ \<Rightarrow>
          Inr \<lparr>table_name_out = table_name, db_out = db, id_out = table_id,
               config_out = cfg, primary_key_out = pk\<rparr>)))" for eb
      by (intro table_row_from_datum_prefix) blast+
    from p have nosh: "map_of kvs ''shards'' = None" by simp
    {
      assume q: "map_of kvs ''primary_key'' = Some v \<and> convert_string_from_datum A v = Inr pk"
      with nosh show "convert_table_config_and_name_from_datum A C (R_OBJECT kvs) True md =
           Inl (missing_field_error A ''shards'')"
        by (simp add: pre primary_key_from_datum_def shards_from_datum_def converter_get_def)
    }
    {
      assume q: "(map_of kvs ''primary_key'' = None \<and> pk = ''id'') \<or>
        (map_of kvs ''primary_key'' = Some v \<and> convert_string_from_datum A v = Inr pk)"
      then show "convert_table_config_and_name_from_datum A C (R_OBJECT kvs) False md = ?generated"
      proof
        assume "map_of kvs ''primary_key'' = None \<and> pk = ''id''"
        with nosh ks' show ?thesis
          by (simp add: pre primary_key_from_datum_def shards_from_datum_def converter_has_def
              check_no_extra_keys_def server_usage_of_live split: sum.splits)
      next
        assume "map_of kvs ''primary_key'' = Some v \<and> convert_string_from_datum A v = Inr pk"
        with nosh ks show ?thesis
          by (simp add: pre primary_key_from_datum_def shards_from_datum_def converter_has_def
              converter_get_def check_no_extra_keys_def server_usage_of_live split: sum.splits)
      qed
    }
  qed
  show "existed_before \<or> (\<exists>fs sd. datum = R_OBJECT fs \<and> map_of fs ''shards'' = Some sd) \<longrightarrow>
      convert_table_config_and_name_from_datum A
        (C\<lparr>table_generate_config := g, calculate_server_usage := u\<rparr>) datum existed_before md =
      convert_table_config_and_name_from_datum A C datum existed_before md"
    by (intro impI table_row_from_datum_generator)
qed


lemmas ex_decode_defs =
  convert_table_config_and_name_from_datum_def primary_key_from_datum_def shards_from_datum_def
  convert_vector_from_datum_def convert_table_config_shard_from_datum_def
  converter_init_def converter_get_def converter_has_def check_no_extra_keys_def
  std_set_insert_def std_set_count_def ex_server_id_from_datum_def
  ex_adapter_def ex_cluster_def ex_row_datum_def ex_shard_datum_def

theorem primary_key_default_witness:
  "convert_table_config_and_name_from_datum ex_adapter ex_cluster
     (ex_row_datum ''logs'' ''t13'' []) False ex_metadata =
     Inr \<lparr>table_name_out = ''logs'', db_out = R_STR ''test'', id_out = 13,
          config_out = \<lparr>shards = [\<lparr>replicas = [1], director = 1\<rparr>]\<rparr>,
          primary_key_out = ''id''\<rparr> \<and>
   convert_table_config_and_name_from_datum ex_adapter ex_cluster
     (ex_row_datum ''logs'' ''t13'' [(''primary_key'', R_STR ''slug'')]) False ex_metadata =
     Inr \<lparr>table_name_out = ''logs'', db_out = R_STR ''test'', id_out = 13,
          config_out = \<lparr>shards = [\<lparr>replicas = [1], director = 1\<rparr>]\<rparr>,
          primary_key_out = ''slug''\<rparr> \<and>
   convert_table_config_and_name_from_datum ex_adapter ex_cluster
     (ex_row_datum ''users'' ''t11'' []) True ex_metadata =
     Inl (missing_field_error ex_adapter ''primary_key'') \<and>
   convert_table_config_and_name_from_datum ex_adapter ex_cluster
     (ex_row_datum ''logs'' ''t13'' [(''primary_key'', R_NUM 5)]) False ex_metadata =
     Inl ''In `primary_key`: Expected a string''"
proof -
  have created: "convert_table_config_and_name_from_datum ex_adapter ex_cluster
     (ex_row_datum ''logs'' ''t13'' []) False ex_metadata =
     Inr \<lparr>table_name_out = ''logs'', db_out = R_STR ''test'', id_out = 13,
          config_out = \<lparr>shards = [\<lparr>replicas = [1], director = 1\<rparr>]\<rparr>,
          primary_key_out = ''id''\<rparr>"
    by (simp add: ex_decode_defs)
  have supplied: "convert_table_config_and_name_from_datum ex_adapter ex_cluster
     (ex_row_datum ''logs'' ''t13'' [(''primary_key'', R_STR ''slug'')]) False ex_metadata =
     Inr \<lparr>table_name_out = ''logs'', db_out = R_STR ''test'', id_out = 13,
          config_out = \<lparr>shards = [\<lparr>replicas = [1], director = 1\<rparr>]\<rparr>,
          primary_key_out = ''slug''\<rparr>"
    by (simp add: ex_decode_defs)
  note required = primary_key_default
    [where A = ex_adapter and C = ex_cluster and md = ex_metadata and
       kvs = "[(''name'', R_STR ''users''), (''db'', R_STR ''test''), (''id'', R_STR ''t11'')]" and
       name_datum = "R_STR ''users''" and table_name = "''users''" and db = "R_STR ''test''" and
       id_datum = "R_STR ''t11''" and table_id = 11 and existed_before = False and
       datum = "ex_row_datum ''logs'' ''t13'' []" and
       row = "\<lparr>table_name_out = ''logs'', db_out = R_STR ''test'', id_out = 13,
          config_out = \<lparr>shards = [\<lparr>replicas = [1], director = 1\<rparr>]\<rparr>,
          primary_key_out = ''id''\<rparr>"]
  note not_string = primary_key_default
    [where A = ex_adapter and C = ex_cluster and md = ex_metadata and existed_before = False and
       kvs = "[(''name'', R_STR ''logs''), (''db'', R_STR ''test''), (''id'', R_STR ''t13''),
               (''primary_key'', R_NUM 5)]" and
       name_datum = "R_STR ''logs''" and table_name = "''logs''" and db = "R_STR ''test''" and
       id_datum = "R_STR ''t13''" and table_id = 13 and v = "R_NUM 5" and e = "''Expected a string''"]
  from created supplied required not_string show ?thesis
    by (simp add: ex_adapter_def ex_row_datum_def)
qed


theorem shards_required_for_update_witness:
  "convert_table_config_and_name_from_datum ex_adapter ex_cluster
     (ex_row_datum ''users'' ''t11'' [(''primary_key'', R_STR ''id'')]) True ex_metadata =
     Inl (missing_field_error ex_adapter ''shards'') \<and>
   convert_table_config_and_name_from_datum ex_adapter ex_cluster
     (ex_row_datum ''logs'' ''t13'' []) False ex_metadata =
     Inr \<lparr>table_name_out = ''logs'', db_out = R_STR ''test'', id_out = 13,
          config_out = \<lparr>shards = [\<lparr>replicas = [1], director = 1\<rparr>]\<rparr>,
          primary_key_out = ''id''\<rparr> \<and>
   convert_table_config_and_name_from_datum ex_adapter
     (ex_cluster\<lparr>table_generate_config := (\<lambda>table_id usage scheme. Inl ''No servers.''),
                 calculate_server_usage := (\<lambda>cfg usage. usage)\<rparr>)
     (ex_row_datum ''users'' ''t11''
        [(''primary_key'', R_STR ''id''), (''shards'', R_ARRAY [ex_shard_datum [''a''] (R_STR ''a'')])])
     True ex_metadata =
     Inr \<lparr>table_name_out = ''users'', db_out = R_STR ''test'', id_out = 11,
          config_out = \<lparr>shards = [\<lparr>replicas = [1], director = 1\<rparr>]\<rparr>,
          primary_key_out = ''id''\<rparr>"
proof -
  have updated: "convert_table_config_and_name_from_datum ex_adapter ex_cluster
     (ex_row_datum ''users'' ''t11''
        [(''primary_key'', R_STR ''id''), (''shards'', R_ARRAY [ex_shard_datum [''a''] (R_STR ''a'')])])
     True ex_metadata =
     Inr \<lparr>table_name_out = ''users'', db_out = R_STR ''test'', id_out = 11,
          config_out = \<lparr>shards = [\<lparr>replicas = [1], director = 1\<rparr>]\<rparr>,
          primary_key_out = ''id''\<rparr>"
    by (simp add: ex_decode_defs)
  have usage: "fold (calculate_server_usage ex_cluster)
       (map (\<lambda>e. config (get_ref (replication_info e)))
          (concat (map (\<lambda>(k, entry). case entry of Live e \<Rightarrow> [e] | Deleted \<Rightarrow> [])
                     (namespaces ex_metadata)))) [] = [(1, 1), (1, 1)]"
    by (simp add: ex_cluster_def ex_metadata_def ex_table_def versioned_def)
  note missing = shards_required_for_update
    [where A = ex_adapter and C = ex_cluster and md = ex_metadata and
       kvs = "[(''name'', R_STR ''users''), (''db'', R_STR ''test''), (''id'', R_STR ''t11''),
               (''primary_key'', R_STR ''id'')]" and
       name_datum = "R_STR ''users''" and table_name = "''users''" and db = "R_STR ''test''" and
       id_datum = "R_STR ''t11''" and table_id = 11 and v = "R_STR ''id''" and pk = "''id''" and
       existed_before = True and
       datum = "ex_row_datum ''users'' ''t11''
        [(''primary_key'', R_STR ''id''), (''shards'', R_ARRAY [ex_shard_datum [''a''] (R_STR ''a'')])]" and
       g = "\<lambda>table_id usage scheme. Inl ''No servers.''" and u = "\<lambda>cfg usage. usage"]
  note generated = shards_required_for_update
    [where A = ex_adapter and C = ex_cluster and md = ex_metadata and
       kvs = "[(''name'', R_STR ''logs''), (''db'', R_STR ''test''), (''id'', R_STR ''t13'')]" and
       name_datum = "R_STR ''logs''" and table_name = "''logs''" and db = "R_STR ''test''" and
       id_datum = "R_STR ''t13''" and table_id = 13 and pk = "''id''"]
  have gen: "table_generate_config ex_cluster = (\<lambda>table_id usage scheme. Inr \<lparr>shards = [\<lparr>replicas = [1], director = 1\<rparr>]\<rparr>)"
    by (simp add: ex_cluster_def)
  from updated missing generated usage gen show ?thesis
    by (simp add: ex_adapter_def ex_row_datum_def unknown_keys_def)
qed

section \<open>Writing a row\<close>

lemma write_row_update:
  assumes "convert_uuid_from_datum A pkey = Inr table_id"
    and "search_metadata_by_uuid (namespaces shared) table_id = Some entry"
    and "convert_table_config_and_name_from_datum A C new_value True shared = Inr row"
    and "id_out row = table_id"
    and "\<not> pkey_was_autogenerated"
  shows "write_row A C new_db_name pkey pkey_was_autogenerated (Some new_value) shared =
     (if db_out row \<noteq> get_db_identifier C (get_ref (database entry)) then
        (Write_error ''It's illegal to change a table's `database` field.'',
         Some new_value, shared)
      else if primary_key_out row \<noteq> get_ref (primary_key entry) then
        (Write_error ''It's illegal to change a table's primary key.'', Some new_value, shared)
      else
        (case calculate_split_points_intelligently C table_id
                (length (shards (config_out row)))
                (shard_scheme (get_ref (replication_info entry))) of
           Inl e \<Rightarrow> (Write_error e, Some new_value, shared)
         | Inr scheme \<Rightarrow>
             if table_name_out row \<noteq> get_ref (name entry) \<and>
                find_uniq (namespaces shared) (table_name_out row) (get_ref (database entry)) \<noteq>
                  METADATA_ERR_NONE
             then (Write_error (rename_error new_db_name (get_ref (name entry))
                                  (table_name_out row)),
                   Some new_value, shared)
             else
               (Write_ok,
                Some (format_row A table_id (table_name_out row) (R_STR new_db_name)
                  (entry\<lparr>name := versioned_set (table_name_out row) (name entry),
                         replication_info :=
                           versioned_set \<lparr>config = config_out row, shard_scheme = scheme\<rparr>
                             (replication_info entry)\<rparr>)),
                semilattice_join C shared
                  (shared\<lparr>namespaces :=
                     std_map_set table_id
                       (Live (entry\<lparr>name := versioned_set (table_name_out row) (name entry),
                         replication_info :=
                           versioned_set \<lparr>config = config_out row, shard_scheme = scheme\<rparr>
                             (replication_info entry)\<rparr>))
                       (namespaces shared)\<rparr>))))"
  using assms
  by (simp add: write_row_def Let_def split: sum.splits)

lemma write_row_create:
  assumes "convert_uuid_from_datum A pkey = Inr table_id"
    and "search_metadata_by_uuid (namespaces shared) table_id = None"
    and "convert_table_config_and_name_from_datum A C new_value False shared = Inr row"
    and "id_out row = table_id"
    and "pkey_was_autogenerated"
    and "map_of (namespaces shared) table_id = None"
    and "convert_database_id_from_datum A (db_out row) = Inr db_id"
  shows "write_row A C new_db_name pkey pkey_was_autogenerated (Some new_value) shared =
     (if length (shards (config_out row)) \<noteq> 1 then
        (Write_error ''Newly created tables must start with exactly one shard'',
         Some new_value, shared)
      else if find_uniq (namespaces shared) (table_name_out row) db_id \<noteq> METADATA_ERR_NONE then
        (Write_error (table_exists_error new_db_name (table_name_out row)),
         Some new_value, shared)
      else
        (Write_ok,
         Some (format_row A table_id (table_name_out row) (R_STR new_db_name)
           \<lparr>name = versioned (table_name_out row),
            database = versioned db_id,
            primary_key = versioned (primary_key_out row),
            replication_info = versioned \<lparr>config = config_out row, shard_scheme = one_shard\<rparr>\<rparr>),
         semilattice_join C shared
           (shared\<lparr>namespaces :=
              std_map_set table_id
                (Live \<lparr>name = versioned (table_name_out row),
                       database = versioned db_id,
                       primary_key = versioned (primary_key_out row),
                       replication_info =
                         versioned \<lparr>config = config_out row, shard_scheme = one_shard\<rparr>\<rparr>)
                (namespaces shared)\<rparr>)))"
  using assms
  by (simp add: write_row_def Let_def)

lemma write_row_delete:
  "write_row A C new_db_name pkey pkey_was_autogenerated None shared =
     (case convert_uuid_from_datum A pkey of
        Inl e \<Rightarrow>
          if pkey_was_autogenerated then
            (Guarantee_failed ''auto-generated primary key should have been a valid UUID string.'',
             None, shared)
          else
            (case search_metadata_by_uuid (namespaces shared) nil_uuid of
               None \<Rightarrow> (Write_ok, None, semilattice_join C shared shared)
             | Some entry \<Rightarrow>
                 (Write_ok, None,
                  semilattice_join C shared
                    (shared\<lparr>namespaces := std_map_set nil_uuid Deleted (namespaces shared)\<rparr>)))
      | Inr table_id \<Rightarrow>
          (case search_metadata_by_uuid (namespaces shared) table_id of
             None \<Rightarrow> (Write_ok, None, semilattice_join C shared shared)
           | Some entry \<Rightarrow>
               if pkey_was_autogenerated then
                 (Guarantee_failed ''UUID collision happened'', None, shared)
               else
                 (Write_ok, None,
                  semilattice_join C shared
                    (shared\<lparr>namespaces := std_map_set table_id Deleted (namespaces shared)\<rparr>))))"
  by (simp add: write_row_def Let_def mark_deleted_def split: sum.splits option.splits)

lemma write_row_failure:
  assumes "write_row A C new_db_name pkey pkey_was_autogenerated new_value_inout shared =
             (result, new_value_out, shared')"
  shows "(result \<noteq> Write_ok \<and> new_value_out = new_value_inout \<and> shared' = shared) \<or>
         (result = Write_ok \<and> (\<exists>md. shared' = semilattice_join C shared md))"
  using assms
  by (auto simp: write_row_def Let_def split: sum.splits option.splits if_splits)

lemma find_uniq_none_iff:
  "find_uniq m table_name db_id = METADATA_ERR_NONE \<longleftrightarrow> \<not> name_taken m table_name db_id"
proof -
  let ?found = "filter (\<lambda>(k, entry). namespace_predicate table_name db_id entry) m"
  have "find_uniq m table_name db_id = METADATA_ERR_NONE \<longleftrightarrow> ?found = []"
    by (auto simp: find_uniq_def split: list.splits)
  also have "\<dots> \<longleftrightarrow> \<not> name_taken m table_name db_id"
    by (auto simp: name_taken_def filter_empty_conv)
  finally show ?thesis .
qed

lemma search_metadata_by_uuid_Some:
  "search_metadata_by_uuid m table_id = Some entry \<Longrightarrow> (table_id, Live entry) \<in> set m"
  by (auto simp: search_metadata_by_uuid_def dest: map_of_SomeD
      split: option.splits deletable_t.splits)

lemma name_taken_by_itself:
  "search_metadata_by_uuid m table_id = Some entry \<Longrightarrow>
     name_taken m (get_ref (name entry)) (get_ref (database entry))"
proof -
  assume "search_metadata_by_uuid m table_id = Some entry"
  then have "(table_id, Live entry) \<in> set m"
    by (rule search_metadata_by_uuid_Some)
  moreover have "case (table_id, Live entry) of
      (k, e) \<Rightarrow> namespace_predicate (get_ref (name entry)) (get_ref (database entry)) e"
    by (simp add: namespace_predicate_def)
  ultimately show ?thesis
    unfolding name_taken_def by (rule bexI [rotated])
qed

lemma map_of_std_map_set: "map_of (std_map_set k v m) = (map_of m)(k \<mapsto> v)"
  by (induction m) (auto simp: fun_eq_iff)

lemma ex_uuid_from_datum:
  "convert_uuid_from_datum ex_adapter (R_STR ''t11'') = Inr 11"
  "convert_uuid_from_datum ex_adapter (R_STR ''t13'') = Inr 13"
  "convert_uuid_from_datum ex_adapter (R_STR ''t14'') = Inl ''Expected a UUID''"
  by (simp_all add: ex_adapter_def)

lemma ex_search:
  "search_metadata_by_uuid (namespaces ex_metadata) 11 = Some (ex_table ''users'')"
  "search_metadata_by_uuid (namespaces ex_metadata) 13 = None"
  "search_metadata_by_uuid (namespaces ex_metadata) 14 = None"
  "map_of (namespaces ex_metadata) 13 = None"
  by (simp_all add: search_metadata_by_uuid_def ex_metadata_def)

lemma ex_decode_table_datum:
  "convert_table_config_and_name_from_datum ex_adapter ex_cluster
     (ex_table_datum table_name db table_id pk (map (\<lambda>r. ex_shard_datum [r] (R_STR r)) rs))
     existed_before md =
   (case convert_uuid_from_datum ex_adapter (R_STR table_id) of
      Inl e \<Rightarrow> Inl (''In `id`: '' @ e)
    | Inr u \<Rightarrow>
        (case convert_elements (convert_table_config_shard_from_datum ex_adapter)
                (map (\<lambda>r. ex_shard_datum [r] (R_STR r)) rs) of
           Inl e \<Rightarrow> Inl (''In `shards`: '' @ e)
         | Inr shs \<Rightarrow>
             if shs = [] then Inl ''In `shards`: You must specify at least one shard.''
             else Inr \<lparr>table_name_out = table_name, db_out = R_STR db, id_out = u,
                       config_out = \<lparr>shards = shs\<rparr>, primary_key_out = pk\<rparr>))"
  by (simp add: convert_table_config_and_name_from_datum_def primary_key_from_datum_def
      shards_from_datum_def convert_vector_from_datum_def converter_init_def converter_get_def
      converter_has_def check_no_extra_keys_def ex_table_datum_def ex_adapter_def
      split: sum.splits)

lemma ex_decode_shard [simp]:
  "convert_table_config_shard_from_datum ex_adapter (ex_shard_datum [''a''] (R_STR ''a'')) =
     Inr \<lparr>replicas = [1], director = 1\<rparr>"
  "convert_table_config_shard_from_datum ex_adapter (ex_shard_datum [''b''] (R_STR ''b'')) =
     Inr \<lparr>replicas = [2], director = 2\<rparr>"
  by (simp_all add: convert_table_config_shard_from_datum_def converter_init_def converter_get_def
      check_no_extra_keys_def std_set_insert_def std_set_count_def ex_server_id_from_datum_def
      ex_shard_datum_def)

lemma ex_decode_11:
  "convert_table_config_and_name_from_datum ex_adapter ex_cluster
     (ex_table_datum table_name db ''t11'' pk [ex_shard_datum [''a''] (R_STR ''a'')])
     existed_before md =
   Inr \<lparr>table_name_out = table_name, db_out = R_STR db, id_out = 11,
        config_out = \<lparr>shards = [\<lparr>replicas = [1], director = 1\<rparr>]\<rparr>, primary_key_out = pk\<rparr>"
  using ex_decode_table_datum [of table_name db "''t11''" pk "[''a'']" existed_before md]
  by (simp add: ex_uuid_from_datum)

lemma ex_decode_13:
  "convert_table_config_and_name_from_datum ex_adapter ex_cluster
     (ex_table_datum table_name db ''t13'' pk (map (\<lambda>r. ex_shard_datum [r] (R_STR r)) rs))
     existed_before md =
   (case convert_elements (convert_table_config_shard_from_datum ex_adapter)
           (map (\<lambda>r. ex_shard_datum [r] (R_STR r)) rs) of
      Inl e \<Rightarrow> Inl (''In `shards`: '' @ e)
    | Inr shs \<Rightarrow>
        if shs = [] then Inl ''In `shards`: You must specify at least one shard.''
        else Inr \<lparr>table_name_out = table_name, db_out = R_STR db, id_out = 13,
                  config_out = \<lparr>shards = shs\<rparr>, primary_key_out = pk\<rparr>)"
  using ex_decode_table_datum [of table_name db "''t13''" pk rs existed_before md]
  by (simp add: ex_uuid_from_datum)

lemma ex_decode_13_one:
  "convert_table_config_and_name_from_datum ex_adapter ex_cluster
     (ex_table_datum table_name db ''t13'' pk [ex_shard_datum [''a''] (R_STR ''a'')])
     existed_before md =
   Inr \<lparr>table_name_out = table_name, db_out = R_STR db, id_out = 13,
        config_out = \<lparr>shards = [\<lparr>replicas = [1], director = 1\<rparr>]\<rparr>, primary_key_out = pk\<rparr>"
  using ex_decode_13 [of table_name db pk "[''a'']" existed_before md] by simp

lemma ex_decode_13_two:
  "convert_table_config_and_name_from_datum ex_adapter ex_cluster
     (ex_table_datum table_name db ''t13'' pk
        [ex_shard_datum [''a''] (R_STR ''a''), ex_shard_datum [''b''] (R_STR ''b'')])
     existed_before md =
   Inr \<lparr>table_name_out = table_name, db_out = R_STR db, id_out = 13,
        config_out = \<lparr>shards = [\<lparr>replicas = [1], director = 1\<rparr>, \<lparr>replicas = [2], director = 2\<rparr>]\<rparr>,
        primary_key_out = pk\<rparr>"
  using ex_decode_13 [of table_name db pk "[''a'', ''b'']" existed_before md] by simp

lemma ex_database_id:
  "convert_database_id_from_datum ex_adapter (R_STR ''test'') = Inr 21"
  by (simp add: ex_adapter_def)

lemma ex_cluster_simps:
  "get_db_identifier ex_cluster 21 = R_STR ''test''"
  "calculate_split_points_intelligently ex_cluster 11 (Suc 0) one_shard = Inr (Split_points [])"
  "semilattice_join ex_cluster view md = md"
  by (simp_all add: ex_cluster_def)

lemma ex_name_taken:
  "name_taken (namespaces ex_metadata) table_name 21 \<longleftrightarrow>
     table_name = ''users'' \<or> table_name = ''posts''"
  by (auto simp: name_taken_def namespace_predicate_def ex_metadata_def ex_table_def versioned_def)

text \<open>
  C3. Take a write to a table that existed before, whose payload the decoder accepts
  (with the identifier of the key, for a key that was not auto-generated). If the
  payload's \<open>db\<close> differs from the display identity of the stored database, the write
  fails with the message for the \<open>database\<close> field; if it is the same and the
  payload's primary key differs from the stored one, the write fails with the message
  for the primary key. If both are the same, these checks reject nothing: the write
  fails only if the recalculation of the split points fails or the new name is taken,
  and succeeds otherwise.
\<close>

theorem immutable_database_and_primary_key:
  assumes "convert_uuid_from_datum A pkey = Inr table_id"
    and "search_metadata_by_uuid (namespaces shared) table_id = Some entry"
    and "convert_table_config_and_name_from_datum A C new_value True shared = Inr row"
    and "id_out row = table_id"
    and "\<not> pkey_was_autogenerated"
  shows
    "(db_out row \<noteq> get_db_identifier C (get_ref (database entry)) \<longrightarrow>
        write_row A C new_db_name pkey pkey_was_autogenerated (Some new_value) shared =
          (Write_error ''It's illegal to change a table's `database` field.'',
           Some new_value, shared)) \<and>
     (db_out row = get_db_identifier C (get_ref (database entry)) \<and>
      primary_key_out row \<noteq> get_ref (primary_key entry) \<longrightarrow>
        write_row A C new_db_name pkey pkey_was_autogenerated (Some new_value) shared =
          (Write_error ''It's illegal to change a table's primary key.'',
           Some new_value, shared)) \<and>
     (db_out row = get_db_identifier C (get_ref (database entry)) \<and>
      primary_key_out row = get_ref (primary_key entry) \<longrightarrow>
        fst (write_row A C new_db_name pkey pkey_was_autogenerated (Some new_value) shared) =
          (case calculate_split_points_intelligently C table_id
                  (length (shards (config_out row)))
                  (shard_scheme (get_ref (replication_info entry))) of
             Inl e \<Rightarrow> Write_error e
           | Inr scheme \<Rightarrow>
               if table_name_out row \<noteq> get_ref (name entry) \<and>
                  name_taken (namespaces shared) (table_name_out row) (get_ref (database entry))
               then Write_error (rename_error new_db_name (get_ref (name entry))
                                   (table_name_out row))
               else Write_ok))"
  by (simp add: write_row_update [OF assms] find_uniq_none_iff split: sum.splits)

theorem immutable_database_and_primary_key_witness:
  "write_row ex_adapter ex_cluster ''test'' (R_STR ''t11'') False
     (Some (ex_table_datum ''users'' ''other'' ''t11'' ''id'' [ex_shard_datum [''a''] (R_STR ''a'')]))
     ex_metadata =
     (Write_error ''It's illegal to change a table's `database` field.'',
      Some (ex_table_datum ''users'' ''other'' ''t11'' ''id'' [ex_shard_datum [''a''] (R_STR ''a'')]),
      ex_metadata) \<and>
   write_row ex_adapter ex_cluster ''test'' (R_STR ''t11'') False
     (Some (ex_table_datum ''users'' ''test'' ''t11'' ''slug'' [ex_shard_datum [''a''] (R_STR ''a'')]))
     ex_metadata =
     (Write_error ''It's illegal to change a table's primary key.'',
      Some (ex_table_datum ''users'' ''test'' ''t11'' ''slug'' [ex_shard_datum [''a''] (R_STR ''a'')]),
      ex_metadata) \<and>
   fst (write_row ex_adapter ex_cluster ''test'' (R_STR ''t11'') False
     (Some (ex_table_datum ''people'' ''test'' ''t11'' ''id'' [ex_shard_datum [''a''] (R_STR ''a'')]))
     ex_metadata) = Write_ok"
proof -
  have no: "\<not> False" by simp
  have cl: "get_db_identifier ex_cluster 21 = R_STR ''test''"
    "calculate_split_points_intelligently ex_cluster 11 (Suc 0) one_shard = Inr (Split_points [])"
    by (simp_all add: ex_cluster_def)
  have nt: "\<not> name_taken (namespaces ex_metadata) ''people'' 21"
    by (simp add: name_taken_def namespace_predicate_def ex_metadata_def ex_table_def versioned_def)
  note db = immutable_database_and_primary_key
    [OF ex_uuid_from_datum(1) ex_search(1)
        ex_decode_11 [of "''users''" "''other''" "''id''" True ex_metadata] _ no,
     where new_db_name = "''test''"]
  note pk = immutable_database_and_primary_key
    [OF ex_uuid_from_datum(1) ex_search(1)
        ex_decode_11 [of "''users''" "''test''" "''slug''" True ex_metadata] _ no,
     where new_db_name = "''test''"]
  note nm = immutable_database_and_primary_key
    [OF ex_uuid_from_datum(1) ex_search(1)
        ex_decode_11 [of "''people''" "''test''" "''id''" True ex_metadata] _ no,
     where new_db_name = "''test''"]
  from db pk nm cl nt show ?thesis
    by (simp add: ex_table_def versioned_def)
qed

text \<open>
  C4. A call of \<^verbatim>\<open>write_row\<close> that does not return \<^verbatim>\<open>true\<close> leaves the view of the
  tables (and \<^verbatim>\<open>new_value_inout\<close>) as it found them; the view changes only by the
  join with the local copy, which only a call that returns \<^verbatim>\<open>true\<close> makes.
\<close>

theorem failure_leaves_view_unchanged:
  assumes "write_row A C new_db_name pkey pkey_was_autogenerated new_value_inout shared =
             (result, new_value_out, shared')"
  shows "(result \<noteq> Write_ok \<longrightarrow> shared' = shared \<and> new_value_out = new_value_inout) \<and>
         (result = Write_ok \<longrightarrow> (\<exists>md. shared' = semilattice_join C shared md))"
  using write_row_failure [OF assms] by blast

theorem failure_leaves_view_unchanged_witness:
  "fst (write_row ex_adapter ex_cluster ''test'' (R_STR ''t11'') False
     (Some (ex_table_datum ''users'' ''test'' ''t11'' ''slug'' [ex_shard_datum [''a''] (R_STR ''a'')]))
     ex_metadata) = Write_error ''It's illegal to change a table's primary key.'' \<and>
   snd (snd (write_row ex_adapter ex_cluster ''test'' (R_STR ''t11'') False
     (Some (ex_table_datum ''users'' ''test'' ''t11'' ''slug'' [ex_shard_datum [''a''] (R_STR ''a'')]))
     ex_metadata)) = ex_metadata"
proof -
  let ?w = "write_row ex_adapter ex_cluster ''test'' (R_STR ''t11'') False
     (Some (ex_table_datum ''users'' ''test'' ''t11'' ''slug'' [ex_shard_datum [''a''] (R_STR ''a'')]))
     ex_metadata"
  have no: "\<not> False" by simp
  have ev: "fst ?w = Write_error ''It's illegal to change a table's primary key.''"
    by (subst write_row_update [OF ex_uuid_from_datum(1) ex_search(1)
          ex_decode_11 [of "''users''" "''test''" "''slug''" True ex_metadata] _ no])
       (simp_all add: ex_cluster_simps ex_table_def versioned_def)
  have "?w = (fst ?w, fst (snd ?w), snd (snd ?w))" by simp
  from failure_leaves_view_unchanged [OF this] ev show ?thesis by simp
qed

text \<open>
  C5. Take a write that creates a table: no entry has the identifier, the key was
  auto-generated, the decoder accepts the payload and its database resolves. If the
  decoded configuration does not have exactly one shard, the write returns
  \<^verbatim>\<open>false\<close> with the message for a new table (it is no failed \<^verbatim>\<open>guarantee\<close>); if
  it has one and the name is free, the write succeeds and the new entry has the
  scheme \<^verbatim>\<open>one_shard()\<close>.
\<close>

theorem new_table_one_shard:
  assumes "convert_uuid_from_datum A pkey = Inr table_id"
    and "search_metadata_by_uuid (namespaces shared) table_id = None"
    and "convert_table_config_and_name_from_datum A C new_value False shared = Inr row"
    and "id_out row = table_id"
    and "pkey_was_autogenerated"
    and "map_of (namespaces shared) table_id = None"
    and "convert_database_id_from_datum A (db_out row) = Inr db_id"
  shows
    "(length (shards (config_out row)) \<noteq> 1 \<longrightarrow>
        write_row A C new_db_name pkey pkey_was_autogenerated (Some new_value) shared =
          (Write_error ''Newly created tables must start with exactly one shard'',
           Some new_value, shared)) \<and>
     (length (shards (config_out row)) = 1 \<and>
      \<not> name_taken (namespaces shared) (table_name_out row) db_id \<longrightarrow>
        write_row A C new_db_name pkey pkey_was_autogenerated (Some new_value) shared =
          (Write_ok,
           Some (format_row A table_id (table_name_out row) (R_STR new_db_name)
             \<lparr>name = versioned (table_name_out row),
              database = versioned db_id,
              primary_key = versioned (primary_key_out row),
              replication_info =
                versioned \<lparr>config = config_out row, shard_scheme = one_shard\<rparr>\<rparr>),
           semilattice_join C shared
             (shared\<lparr>namespaces :=
                std_map_set table_id
                  (Live \<lparr>name = versioned (table_name_out row),
                         database = versioned db_id,
                         primary_key = versioned (primary_key_out row),
                         replication_info =
                           versioned \<lparr>config = config_out row, shard_scheme = one_shard\<rparr>\<rparr>)
                  (namespaces shared)\<rparr>)))"
  by (simp add: write_row_create [OF assms] find_uniq_none_iff)

theorem new_table_one_shard_witness:
  "write_row ex_adapter ex_cluster ''test'' (R_STR ''t13'') True
     (Some (ex_table_datum ''logs'' ''test'' ''t13'' ''id''
        [ex_shard_datum [''a''] (R_STR ''a''), ex_shard_datum [''b''] (R_STR ''b'')]))
     ex_metadata =
     (Write_error ''Newly created tables must start with exactly one shard'',
      Some (ex_table_datum ''logs'' ''test'' ''t13'' ''id''
        [ex_shard_datum [''a''] (R_STR ''a''), ex_shard_datum [''b''] (R_STR ''b'')]),
      ex_metadata) \<and>
   fst (write_row ex_adapter ex_cluster ''test'' (R_STR ''t13'') True
     (Some (ex_table_datum ''logs'' ''test'' ''t13'' ''id'' [ex_shard_datum [''a''] (R_STR ''a'')]))
     ex_metadata) = Write_ok \<and>
   map_of (namespaces (snd (snd (write_row ex_adapter ex_cluster ''test'' (R_STR ''t13'') True
     (Some (ex_table_datum ''logs'' ''test'' ''t13'' ''id'' [ex_shard_datum [''a''] (R_STR ''a'')]))
     ex_metadata)))) 13 =
     Some (Live \<lparr>name = versioned ''logs'', database = versioned 21,
                 primary_key = versioned ''id'',
                 replication_info =
                   versioned \<lparr>config = \<lparr>shards = [\<lparr>replicas = [1], director = 1\<rparr>]\<rparr>,
                              shard_scheme = one_shard\<rparr>\<rparr>)"
proof -
  have yes: "True" by simp
  note two = new_table_one_shard
    [OF ex_uuid_from_datum(2) ex_search(2)
        ex_decode_13_two [of "''logs''" "''test''" "''id''" False ex_metadata] _ yes ex_search(4),
     where new_db_name = "''test''" and db_id = 21]
  note one = new_table_one_shard
    [OF ex_uuid_from_datum(2) ex_search(2)
        ex_decode_13_one [of "''logs''" "''test''" "''id''" False ex_metadata] _ yes ex_search(4),
     where new_db_name = "''test''" and db_id = 21]
  from two one show ?thesis
    by (simp add: ex_database_id ex_name_taken ex_cluster_simps map_of_std_map_set)
qed

text \<open>
  C7. A write that creates a table fails with \<^verbatim>\<open>Table `db.name` already exists.\<close>
  exactly when an entry that is not deleted has the new name in the database; a write
  that renames a table fails with \<^verbatim>\<open>Cannot rename table ...\<close> exactly when one has;
  a write that keeps the name of the table succeeds although its name is taken (by the
  table itself): no check is made. The two messages are never the same.
\<close>

theorem name_collision_check:
  "(convert_uuid_from_datum A pkey = Inr table_id \<and>
    search_metadata_by_uuid (namespaces shared) table_id = None \<and>
    convert_table_config_and_name_from_datum A C new_value False shared = Inr row \<and>
    id_out row = table_id \<and> pkey_was_autogenerated \<and>
    map_of (namespaces shared) table_id = None \<and>
    convert_database_id_from_datum A (db_out row) = Inr db_id \<and>
    length (shards (config_out row)) = 1 \<longrightarrow>
      fst (write_row A C new_db_name pkey pkey_was_autogenerated (Some new_value) shared) =
        (if name_taken (namespaces shared) (table_name_out row) db_id
         then Write_error (table_exists_error new_db_name (table_name_out row))
         else Write_ok)) \<and>
   (convert_uuid_from_datum A pkey = Inr table_id \<and>
    search_metadata_by_uuid (namespaces shared) table_id = Some entry \<and>
    convert_table_config_and_name_from_datum A C new_value True shared = Inr row \<and>
    id_out row = table_id \<and> \<not> pkey_was_autogenerated \<and>
    db_out row = get_db_identifier C (get_ref (database entry)) \<and>
    primary_key_out row = get_ref (primary_key entry) \<and>
    calculate_split_points_intelligently C table_id (length (shards (config_out row)))
      (shard_scheme (get_ref (replication_info entry))) = Inr scheme \<longrightarrow>
      (table_name_out row \<noteq> get_ref (name entry) \<longrightarrow>
         fst (write_row A C new_db_name pkey pkey_was_autogenerated (Some new_value) shared) =
           (if name_taken (namespaces shared) (table_name_out row) (get_ref (database entry))
            then Write_error (rename_error new_db_name (get_ref (name entry))
                                (table_name_out row))
            else Write_ok)) \<and>
      (table_name_out row = get_ref (name entry) \<longrightarrow>
         fst (write_row A C new_db_name pkey pkey_was_autogenerated (Some new_value) shared) =
           Write_ok \<and>
         name_taken (namespaces shared) (table_name_out row) (get_ref (database entry)))) \<and>
   table_exists_error new_db_name new_table_name \<noteq>
     rename_error new_db_name' old_table_name new_table_name'"
proof (intro conjI impI)
  assume h: "convert_uuid_from_datum A pkey = Inr table_id \<and>
    search_metadata_by_uuid (namespaces shared) table_id = None \<and>
    convert_table_config_and_name_from_datum A C new_value False shared = Inr row \<and>
    id_out row = table_id \<and> pkey_was_autogenerated \<and>
    map_of (namespaces shared) table_id = None \<and>
    convert_database_id_from_datum A (db_out row) = Inr db_id \<and>
    length (shards (config_out row)) = 1"
  then have "write_row A C new_db_name pkey pkey_was_autogenerated (Some new_value) shared =
     (if find_uniq (namespaces shared) (table_name_out row) db_id \<noteq> METADATA_ERR_NONE then
        (Write_error (table_exists_error new_db_name (table_name_out row)),
         Some new_value, shared)
      else
        (Write_ok,
         Some (format_row A table_id (table_name_out row) (R_STR new_db_name)
           \<lparr>name = versioned (table_name_out row),
            database = versioned db_id,
            primary_key = versioned (primary_key_out row),
            replication_info = versioned \<lparr>config = config_out row, shard_scheme = one_shard\<rparr>\<rparr>),
         semilattice_join C shared
           (shared\<lparr>namespaces :=
              std_map_set table_id
                (Live \<lparr>name = versioned (table_name_out row),
                       database = versioned db_id,
                       primary_key = versioned (primary_key_out row),
                       replication_info =
                         versioned \<lparr>config = config_out row, shard_scheme = one_shard\<rparr>\<rparr>)
                (namespaces shared)\<rparr>)))"
    by (subst write_row_create [where table_id = table_id and row = row and db_id = db_id])
       simp_all
  then show "fst (write_row A C new_db_name pkey pkey_was_autogenerated (Some new_value) shared) =
        (if name_taken (namespaces shared) (table_name_out row) db_id
         then Write_error (table_exists_error new_db_name (table_name_out row))
         else Write_ok)"
    by (simp add: find_uniq_none_iff)
next
  assume h: "convert_uuid_from_datum A pkey = Inr table_id \<and>
    search_metadata_by_uuid (namespaces shared) table_id = Some entry \<and>
    convert_table_config_and_name_from_datum A C new_value True shared = Inr row \<and>
    id_out row = table_id \<and> \<not> pkey_was_autogenerated \<and>
    db_out row = get_db_identifier C (get_ref (database entry)) \<and>
    primary_key_out row = get_ref (primary_key entry) \<and>
    calculate_split_points_intelligently C table_id (length (shards (config_out row)))
      (shard_scheme (get_ref (replication_info entry))) = Inr scheme"
  then have upd: "fst (write_row A C new_db_name pkey pkey_was_autogenerated (Some new_value) shared) =
      (if table_name_out row \<noteq> get_ref (name entry) \<and>
          find_uniq (namespaces shared) (table_name_out row) (get_ref (database entry)) \<noteq>
            METADATA_ERR_NONE
       then Write_error (rename_error new_db_name (get_ref (name entry)) (table_name_out row))
       else Write_ok)"
    by (subst write_row_update [where table_id = table_id and row = row and entry = entry])
       simp_all
  {
    assume "table_name_out row \<noteq> get_ref (name entry)"
    with upd show "fst (write_row A C new_db_name pkey pkey_was_autogenerated (Some new_value) shared) =
           (if name_taken (namespaces shared) (table_name_out row) (get_ref (database entry))
            then Write_error (rename_error new_db_name (get_ref (name entry))
                                (table_name_out row))
            else Write_ok)"
      by (simp add: find_uniq_none_iff)
  }
  {
    assume same: "table_name_out row = get_ref (name entry)"
    with upd show "fst (write_row A C new_db_name pkey pkey_was_autogenerated (Some new_value) shared) =
           Write_ok"
      by simp
    from h same name_taken_by_itself [of "namespaces shared" table_id entry]
    show "name_taken (namespaces shared) (table_name_out row) (get_ref (database entry))"
      by simp
  }
next
  show "table_exists_error new_db_name new_table_name \<noteq>
     rename_error new_db_name' old_table_name new_table_name'"
    by (simp add: table_exists_error_def rename_error_def)
qed

theorem name_collision_check_witness:
  "fst (write_row ex_adapter ex_cluster ''test'' (R_STR ''t13'') True
     (Some (ex_table_datum ''users'' ''test'' ''t13'' ''id'' [ex_shard_datum [''a''] (R_STR ''a'')]))
     ex_metadata) = Write_error (table_exists_error ''test'' ''users'') \<and>
   fst (write_row ex_adapter ex_cluster ''test'' (R_STR ''t11'') False
     (Some (ex_table_datum ''posts'' ''test'' ''t11'' ''id'' [ex_shard_datum [''a''] (R_STR ''a'')]))
     ex_metadata) = Write_error (rename_error ''test'' ''users'' ''posts'') \<and>
   fst (write_row ex_adapter ex_cluster ''test'' (R_STR ''t11'') False
     (Some (ex_table_datum ''people'' ''test'' ''t11'' ''id'' [ex_shard_datum [''a''] (R_STR ''a'')]))
     ex_metadata) = Write_ok \<and>
   fst (write_row ex_adapter ex_cluster ''test'' (R_STR ''t11'') False
     (Some (ex_table_datum ''users'' ''test'' ''t11'' ''id'' [ex_shard_datum [''a''] (R_STR ''a'')]))
     ex_metadata) = Write_ok"
proof -
  note create = name_collision_check
    [where A = ex_adapter and C = ex_cluster and shared = ex_metadata and
       new_db_name = "''test''" and pkey = "R_STR ''t13''" and table_id = 13 and
       pkey_was_autogenerated = True and db_id = 21 and
       new_value = "ex_table_datum ''users'' ''test'' ''t13'' ''id'' [ex_shard_datum [''a''] (R_STR ''a'')]" and
       row = "\<lparr>table_name_out = ''users'', db_out = R_STR ''test'', id_out = 13,
        config_out = \<lparr>shards = [\<lparr>replicas = [1], director = 1\<rparr>]\<rparr>, primary_key_out = ''id''\<rparr>"]
  note rename = name_collision_check
    [where A = ex_adapter and C = ex_cluster and shared = ex_metadata and
       new_db_name = "''test''" and pkey = "R_STR ''t11''" and table_id = 11 and
       pkey_was_autogenerated = False and entry = "ex_table ''users''" and
       scheme = "Split_points []" and
       new_value = "ex_table_datum ''posts'' ''test'' ''t11'' ''id'' [ex_shard_datum [''a''] (R_STR ''a'')]" and
       row = "\<lparr>table_name_out = ''posts'', db_out = R_STR ''test'', id_out = 11,
        config_out = \<lparr>shards = [\<lparr>replicas = [1], director = 1\<rparr>]\<rparr>, primary_key_out = ''id''\<rparr>"]
  note fresh = name_collision_check
    [where A = ex_adapter and C = ex_cluster and shared = ex_metadata and
       new_db_name = "''test''" and pkey = "R_STR ''t11''" and table_id = 11 and
       pkey_was_autogenerated = False and entry = "ex_table ''users''" and
       scheme = "Split_points []" and
       new_value = "ex_table_datum ''people'' ''test'' ''t11'' ''id'' [ex_shard_datum [''a''] (R_STR ''a'')]" and
       row = "\<lparr>table_name_out = ''people'', db_out = R_STR ''test'', id_out = 11,
        config_out = \<lparr>shards = [\<lparr>replicas = [1], director = 1\<rparr>]\<rparr>, primary_key_out = ''id''\<rparr>"]
  note same = name_collision_check
    [where A = ex_adapter and C = ex_cluster and shared = ex_metadata and
       new_db_name = "''test''" and pkey = "R_STR ''t11''" and table_id = 11 and
       pkey_was_autogenerated = False and entry = "ex_table ''users''" and
       scheme = "Split_points []" and
       new_value = "ex_table_datum ''users'' ''test'' ''t11'' ''id'' [ex_shard_datum [''a''] (R_STR ''a'')]" and
       row = "\<lparr>table_name_out = ''users'', db_out = R_STR ''test'', id_out = 11,
        config_out = \<lparr>shards = [\<lparr>replicas = [1], director = 1\<rparr>]\<rparr>, primary_key_out = ''id''\<rparr>"]
  have t: "get_ref (name (ex_table n)) = n" "get_ref (database (ex_table n)) = 21"
    "get_ref (primary_key (ex_table n)) = ''id''"
    "shard_scheme (get_ref (replication_info (ex_table n))) = one_shard" for n
    by (simp_all add: ex_table_def versioned_def)
  from create rename fresh same show ?thesis
    by (simp add: ex_uuid_from_datum ex_search ex_decode_11 ex_decode_13_one ex_database_id
        ex_name_taken ex_cluster_simps t)
qed

text \<open>
  C9. A call of \<^verbatim>\<open>write_row\<close> with an empty payload (for a key that was not
  auto-generated, as the \<^verbatim>\<open>guarantee\<close> of the branch requires of the caller) returns
  \<^verbatim>\<open>true\<close>, also when it follows such a call: if the identifier names a table that
  is not deleted, its entry is marked deleted in the local copy, which is joined into
  the view; if it names no table or a deleted one, nothing is changed in the copy, and
  joining it leaves the view as it was when the join is idempotent.
\<close>

theorem delete_is_idempotent:
  assumes "\<not> pkey_was_autogenerated"
    and "table_id = (case convert_uuid_from_datum A pkey of Inr u \<Rightarrow> u | Inl e \<Rightarrow> nil_uuid)"
  shows
    "fst (write_row A C new_db_name pkey pkey_was_autogenerated None shared) = Write_ok \<and>
     fst (write_row A C new_db_name pkey pkey_was_autogenerated None
            (snd (snd (write_row A C new_db_name pkey pkey_was_autogenerated None shared)))) =
       Write_ok \<and>
     (search_metadata_by_uuid (namespaces shared) table_id = Some entry \<longrightarrow>
        write_row A C new_db_name pkey pkey_was_autogenerated None shared =
          (Write_ok, None,
           semilattice_join C shared
             (shared\<lparr>namespaces :=
                std_map_set table_id (mark_deleted (Live entry)) (namespaces shared)\<rparr>)) \<and>
        map_of (std_map_set table_id (mark_deleted (Live entry)) (namespaces shared)) =
          (map_of (namespaces shared))(table_id \<mapsto> Deleted)) \<and>
     (search_metadata_by_uuid (namespaces shared) table_id = None \<longrightarrow>
        write_row A C new_db_name pkey pkey_was_autogenerated None shared =
          (Write_ok, None, semilattice_join C shared shared) \<and>
        (semilattice_join C shared shared = shared \<longrightarrow>
           write_row A C new_db_name pkey pkey_was_autogenerated None shared =
             (Write_ok, None, shared)))"
proof -
  have ok: "fst (write_row A C new_db_name pkey pkey_was_autogenerated None s) = Write_ok" for s
    using assms(1) by (simp add: write_row_delete split: sum.splits option.splits)
  have deleted: "write_row A C new_db_name pkey pkey_was_autogenerated None shared =
          (Write_ok, None,
           semilattice_join C shared
             (shared\<lparr>namespaces :=
                std_map_set table_id (mark_deleted (Live entry)) (namespaces shared)\<rparr>))"
    if "search_metadata_by_uuid (namespaces shared) table_id = Some entry"
    using that assms by (simp add: write_row_delete mark_deleted_def split: sum.splits)
  have absent: "write_row A C new_db_name pkey pkey_was_autogenerated None shared =
          (Write_ok, None, semilattice_join C shared shared)"
    if "search_metadata_by_uuid (namespaces shared) table_id = None"
    using that assms by (simp add: write_row_delete split: sum.splits)
  from ok [of shared]
    ok [of "snd (snd (write_row A C new_db_name pkey pkey_was_autogenerated None shared))"]
    deleted absent
  show ?thesis
    by (simp add: map_of_std_map_set mark_deleted_def)
qed

theorem delete_is_idempotent_witness:
  "write_row ex_adapter ex_cluster ''test'' (R_STR ''t11'') False None ex_metadata =
     (Write_ok, None,
      \<lparr>namespaces = [(11, Deleted), (12, Live (ex_table ''posts'')), (14, Deleted)]\<rparr>) \<and>
   write_row ex_adapter ex_cluster ''test'' (R_STR ''t11'') False None
     \<lparr>namespaces = [(11, Deleted), (12, Live (ex_table ''posts'')), (14, Deleted)]\<rparr> =
     (Write_ok, None,
      \<lparr>namespaces = [(11, Deleted), (12, Live (ex_table ''posts'')), (14, Deleted)]\<rparr>) \<and>
   write_row ex_adapter ex_cluster ''test'' (R_STR ''t13'') False None ex_metadata =
     (Write_ok, None, ex_metadata)"
proof -
  have no: "\<not> False" by simp
  note first = delete_is_idempotent
    [OF no refl, where A = ex_adapter and C = ex_cluster and new_db_name = "''test''" and
       pkey = "R_STR ''t11''" and shared = ex_metadata and entry = "ex_table ''users''"]
  note second = delete_is_idempotent
    [OF no refl, where A = ex_adapter and C = ex_cluster and new_db_name = "''test''" and
       pkey = "R_STR ''t11''" and
       shared = "\<lparr>namespaces = [(11, Deleted), (12, Live (ex_table ''posts'')), (14, Deleted)]\<rparr>"]
  note absent = delete_is_idempotent
    [OF no refl, where A = ex_adapter and C = ex_cluster and new_db_name = "''test''" and
       pkey = "R_STR ''t13''" and shared = ex_metadata]
  have s: "search_metadata_by_uuid
      [(11, Deleted), (12, Live (ex_table ''posts'')), (14, Deleted)] 11 = None"
    by (simp add: search_metadata_by_uuid_def)
  have d: "ex_metadata\<lparr>namespaces := std_map_set 11 Deleted (namespaces ex_metadata)\<rparr> =
      \<lparr>namespaces = [(11, Deleted), (12, Live (ex_table ''posts'')), (14, Deleted)]\<rparr>"
    by (simp add: ex_metadata_def)
  from first second absent show ?thesis
    by (simp add: ex_uuid_from_datum ex_search ex_cluster_simps s d mark_deleted_def)
qed

end
